theory Spec2Isabelle
  imports Main
begin

section \<open>The kube-vip load-balancer manager (pkg/provider/loadBalancer.go)\<close>

text \<open>
  A shallow embedding of \<^verbatim>\<open>pkg/provider/loadBalancer.go\<close>. The Go code talks to three
  collaborators: the Kubernetes client (list, get and update of services), the
  configuration-map helpers of the manager (\<^verbatim>\<open>GetConfigMap\<close>, \<^verbatim>\<open>CreateConfigMap\<close>) and
  the package \<^verbatim>\<open>ipam\<close>. Their code is not part of this file; they are parameters of the
  model (a record of functions over an arbitrary collaborator state). Every call that
  leaves the file, log lines included, is appended to a trace, so that "performs no
  write" and "calls the allocator with this list" are statements about values.
  The \<^verbatim>\<open>context.Context\<close> argument (cancellation) is not modelled.
\<close>

subsection \<open>Errors\<close>

datatype StatusReason = StatusReasonConflict | StatusReasonNotFound | StatusReasonOther string

text \<open>
  A Go \<^verbatim>\<open>error\<close> value. \<open>StatusError\<close> is an error answered by the API server (it carries
  the reason that \<^verbatim>\<open>errors.IsConflict\<close> inspects), \<open>Errorf\<close> is an error built by
  \<^verbatim>\<open>fmt.Errorf\<close>, which carries its formatted message only. A nil error is \<open>None\<close> of
  \<open>error option\<close>.
\<close>

datatype error = StatusError StatusReason string | Errorf string

fun Error :: "error \<Rightarrow> string" where
  "Error (StatusError r m) = m"
| "Error (Errorf m) = m"

fun IsConflict :: "error \<Rightarrow> bool" where
  "IsConflict (StatusError r m) = (r = StatusReasonConflict)"
| "IsConflict (Errorf m) = False"

text \<open>The verb \<^verbatim>\<open>%v\<close> of package fmt applied to an error variable: a nil interface prints \<^verbatim>\<open><nil>\<close>.\<close>

definition fmt_v :: "error option \<Rightarrow> string" where
  "fmt_v err = (case err of None \<Rightarrow> ''<nil>'' | Some e \<Rightarrow> Error e)"

subsection \<open>Objects\<close>

record LoadBalancerIngress =
  IP :: string
  Hostname :: string

record LoadBalancerStatus =
  Ingress :: "LoadBalancerIngress list"

text \<open>
  \<^verbatim>\<open>v1.Service\<close>, with the fields this file reads or writes. \<open>Labels\<close> is a Go map that
  may be nil (\<open>None\<close>). All other fields of the Kubernetes object are the record's
  extension (\<open>'x Service_scheme\<close>), so a statement about every service covers them.
\<close>

record Service =
  Name :: string
  Namespace :: string
  UID :: string
  Labels :: "(string \<rightharpoonup> string) option"
  Spec_LoadBalancerIP :: string
  Status_LoadBalancer :: LoadBalancerStatus

text \<open>Reading a Go map: a missing key, and any key of a nil map, gives the zero value \<^verbatim>\<open>""\<close>.\<close>

definition index :: "(string \<rightharpoonup> string) option \<Rightarrow> string \<Rightarrow> string" where
  "index m key = (case m of None \<Rightarrow> '''' | Some f \<Rightarrow> (case f key of None \<Rightarrow> '''' | Some v \<Rightarrow> v))"

record ConfigMap =
  Data :: "string \<rightharpoonup> string"

record kubevipLoadBalancerManager =
  nameSpace :: string
  cloudConfigMap :: string

subsection \<open>Collaborators and the trace of calls\<close>

datatype level = InfoLevel | ErrorLevel

datatype 'o call =
    Klog level string
  | ServicesList string string
  | ServicesGet string string
  | ServicesUpdate string 'o
  | GetConfigMap string string
  | CreateConfigMap string string
  | FindAvailableHostFromCidr string string "string list"
  | FindAvailableHostFromRange string string "string list"

text \<open>
  The collaborators. \<open>'s\<close> is whatever state they hold (the API server's objects, the
  cache of package ipam). A client call answers an object or an error; the two
  functions of package ipam answer Go's pair \<^verbatim>\<open>(string, error)\<close>.
  \<open>clientConfigName\<close> is the constant \<^verbatim>\<open>KubeVipClientConfig\<close>, declared in another file.
\<close>

record ('s, 'x) collaborators =
  svcList :: "string \<Rightarrow> string \<Rightarrow> 's \<Rightarrow> (error + 'x Service_scheme list) \<times> 's"
  svcGet :: "string \<Rightarrow> string \<Rightarrow> 's \<Rightarrow> (error + 'x Service_scheme) \<times> 's"
  svcUpdate :: "string \<Rightarrow> 'x Service_scheme \<Rightarrow> 's \<Rightarrow> (error + 'x Service_scheme) \<times> 's"
  cmGet :: "string \<Rightarrow> string \<Rightarrow> 's \<Rightarrow> (error + ConfigMap) \<times> 's"
  cmCreate :: "string \<Rightarrow> string \<Rightarrow> 's \<Rightarrow> (error + ConfigMap) \<times> 's"
  hostFromCidr :: "string \<Rightarrow> string \<Rightarrow> string list \<Rightarrow> 's \<Rightarrow> (string \<times> error option) \<times> 's"
  hostFromRange :: "string \<Rightarrow> string \<Rightarrow> string list \<Rightarrow> 's \<Rightarrow> (string \<times> error option) \<times> 's"
  clientConfigName :: string

record ('s, 'x) world =
  api :: 's
  trace :: "'x Service_scheme call list"

definition emit :: "'x Service_scheme call \<Rightarrow> ('s, 'x) world \<Rightarrow> ('s, 'x) world" where
  "emit c w = w\<lparr>trace := trace w @ [c]\<rparr>"

definition perform ::
  "'x Service_scheme call \<Rightarrow> ('s \<Rightarrow> 'r \<times> 's) \<Rightarrow> ('s, 'x) world \<Rightarrow> 'r \<times> ('s, 'x) world" where
  "perform c f w = (case f (api w) of (r, s) \<Rightarrow> (r, \<lparr>api = s, trace = trace w @ [c]\<rparr>))"

definition klog_Info :: "string \<Rightarrow> ('s, 'x) world \<Rightarrow> ('s, 'x) world" where
  "klog_Info msg = emit (Klog InfoLevel msg)"

definition klog_Error :: "string \<Rightarrow> ('s, 'x) world \<Rightarrow> ('s, 'x) world" where
  "klog_Error msg = emit (Klog ErrorLevel msg)"

definition Services_List ::
  "('s, 'x) collaborators \<Rightarrow> string \<Rightarrow> string \<Rightarrow> ('s, 'x) world
    \<Rightarrow> (error + 'x Service_scheme list) \<times> ('s, 'x) world" where
  "Services_List env ns selector = perform (ServicesList ns selector) (svcList env ns selector)"

definition Services_Get ::
  "('s, 'x) collaborators \<Rightarrow> string \<Rightarrow> string \<Rightarrow> ('s, 'x) world
    \<Rightarrow> (error + 'x Service_scheme) \<times> ('s, 'x) world" where
  "Services_Get env ns name = perform (ServicesGet ns name) (svcGet env ns name)"

definition Services_Update ::
  "('s, 'x) collaborators \<Rightarrow> string \<Rightarrow> 'x Service_scheme \<Rightarrow> ('s, 'x) world
    \<Rightarrow> (error + 'x Service_scheme) \<times> ('s, 'x) world" where
  "Services_Update env ns obj = perform (ServicesUpdate ns obj) (svcUpdate env ns obj)"

definition k_GetConfigMap ::
  "('s, 'x) collaborators \<Rightarrow> string \<Rightarrow> string \<Rightarrow> ('s, 'x) world
    \<Rightarrow> (error + ConfigMap) \<times> ('s, 'x) world" where
  "k_GetConfigMap env name ns = perform (GetConfigMap name ns) (cmGet env name ns)"

definition k_CreateConfigMap ::
  "('s, 'x) collaborators \<Rightarrow> string \<Rightarrow> string \<Rightarrow> ('s, 'x) world
    \<Rightarrow> (error + ConfigMap) \<times> ('s, 'x) world" where
  "k_CreateConfigMap env name ns = perform (CreateConfigMap name ns) (cmCreate env name ns)"

definition ipam_FindAvailableHostFromCidr ::
  "('s, 'x) collaborators \<Rightarrow> string \<Rightarrow> string \<Rightarrow> string list \<Rightarrow> ('s, 'x) world
    \<Rightarrow> (string \<times> error option) \<times> ('s, 'x) world" where
  "ipam_FindAvailableHostFromCidr env ns cidr existing =
     perform (FindAvailableHostFromCidr ns cidr existing) (hostFromCidr env ns cidr existing)"

definition ipam_FindAvailableHostFromRange ::
  "('s, 'x) collaborators \<Rightarrow> string \<Rightarrow> string \<Rightarrow> string list \<Rightarrow> ('s, 'x) world
    \<Rightarrow> (string \<times> error option) \<times> ('s, 'x) world" where
  "ipam_FindAvailableHostFromRange env ns ipRange existing =
     perform (FindAvailableHostFromRange ns ipRange existing) (hostFromRange env ns ipRange existing)"

subsection \<open>GetLoadBalancer, deleteLoadBalancer\<close>

text \<open>Lines 45-52. The result is Go's triple \<^verbatim>\<open>(status, exists, err)\<close>.\<close>

definition GetLoadBalancer ::
  "'x Service_scheme \<Rightarrow> LoadBalancerStatus option \<times> bool \<times> error option" where
  "GetLoadBalancer service =
     (if index (Labels service) ''implementation'' = ''kube=vip''
      then (Some (Status_LoadBalancer service), True, None)
      else (None, False, None))"

text \<open>Lines 64-68: one log line, then nil.\<close>

definition deleteLoadBalancer ::
  "'x Service_scheme \<Rightarrow> ('s, 'x) world \<Rightarrow> error option \<times> ('s, 'x) world" where
  "deleteLoadBalancer service w =
     (let w1 = klog_Info (''deleting service '' @ [CHR 0x27] @ Name service @ [CHR 0x27]
                          @ '' ('' @ UID service @ '')'') w
      in (None, w1))"

definition EnsureLoadBalancerDeleted ::
  "string \<Rightarrow> 'x Service_scheme \<Rightarrow> ('s, 'x) world \<Rightarrow> error option \<times> ('s, 'x) world" where
  "EnsureLoadBalancerDeleted clusterName service w = deleteLoadBalancer service w"

subsection \<open>discoverAddress\<close>

text \<open>
  Lines 146-194. \<^verbatim>\<open>cidr, ok = cm.Data[key]\<close> gives \<^verbatim>\<open>("", false)\<close> for a missing key.
  The CIDR branch returns \<^verbatim>\<open>""\<close> with the error, the range branch returns whatever
  address package ipam handed back together with the error.
\<close>

definition discoverAddress ::
  "('s, 'x) collaborators \<Rightarrow> ConfigMap \<Rightarrow> string \<Rightarrow> string \<Rightarrow> string list \<Rightarrow> ('s, 'x) world
    \<Rightarrow> (string \<times> error option) \<times> ('s, 'x) world" where
  "discoverAddress env cm namespace configMapName existingServiceIPS w0 =
     (let cidrKey = ''cidr-'' @ namespace;
          (cidr, ok, w1) =
            (case Data cm cidrKey of
               None \<Rightarrow>
                 (let w = klog_Info (''no cidr config for namespace ['' @ namespace
                            @ ''] exists in key ['' @ cidrKey @ ''] configmap [''
                            @ configMapName @ '']'') w0
                  in case Data cm ''cidr-global'' of
                       None \<Rightarrow> ('''', False, klog_Info ''no global cidr config exists [cidr-global]'' w)
                     | Some v \<Rightarrow> (v, True, klog_Info ''Taking address from [cidr-global] pool'' w))
             | Some v \<Rightarrow> (v, True, klog_Info (''Taking address from ['' @ cidrKey @ ''] pool'') w0))
      in if ok then
           (case ipam_FindAvailableHostFromCidr env namespace cidr existingServiceIPS w1 of
              ((vip, err), w2) \<Rightarrow> if err \<noteq> None then (('''', err), w2) else ((vip, err), w2))
         else
           (let rangeKey = ''range-'' @ namespace;
                (ipRange, ok, w2) =
                  (case Data cm rangeKey of
                     None \<Rightarrow>
                       (let w = klog_Info (''no range config for namespace ['' @ namespace
                                  @ ''] exists in key ['' @ rangeKey @ ''] configmap [''
                                  @ configMapName @ '']'') w1
                        in case Data cm ''range-global'' of
                             None \<Rightarrow> ('''', False, klog_Info ''no global range config exists [range-global]'' w)
                           | Some v \<Rightarrow> (v, True, klog_Info ''Taking address from [range-global] pool'' w))
                   | Some v \<Rightarrow> (v, True, klog_Info (''Taking address from ['' @ rangeKey @ ''] pool'') w1))
            in if ok then
                 (case ipam_FindAvailableHostFromRange env namespace ipRange existingServiceIPS w2 of
                    ((vip, err), w3) \<Rightarrow> if err \<noteq> None then ((vip, err), w3) else ((vip, err), w3))
               else (('''', Some (Errorf
                 ''no IP address ranges could be found either range-global or range-<namespace>'')), w2)))"

subsection \<open>The pool resolver, in the words of the specification\<close>

text \<open>
  The specification describes resolution separately from allocation: the four keys
  \<^verbatim>\<open>cidr-<namespace>\<close>, \<^verbatim>\<open>cidr-global\<close>, \<^verbatim>\<open>range-<namespace>\<close>, \<^verbatim>\<open>range-global\<close> are
  looked up in this order, the first hit wins, nothing is merged. \<open>resolve\<close> is that
  description; it is compared with \<open>discoverAddress\<close> below. The text of a pool is
  kept unparsed (parsing belongs to package ipam).
\<close>

datatype PoolDefinition = CIDRBlock string | AddressRange string

definition lookupOrder :: "string \<Rightarrow> (string \<times> (string \<Rightarrow> PoolDefinition)) list" where
  "lookupOrder namespace =
     [(''cidr-'' @ namespace, CIDRBlock), (''cidr-global'', CIDRBlock),
      (''range-'' @ namespace, AddressRange), (''range-global'', AddressRange)]"

fun firstHit ::
  "ConfigMap \<Rightarrow> (string \<times> (string \<Rightarrow> PoolDefinition)) list \<Rightarrow> PoolDefinition option" where
  "firstHit cm [] = None"
| "firstHit cm ((key, kind) # rest) =
     (case Data cm key of Some text \<Rightarrow> Some (kind text) | None \<Rightarrow> firstHit cm rest)"

definition resolve :: "string \<Rightarrow> ConfigMap \<Rightarrow> PoolDefinition option" where
  "resolve namespace cm = firstHit cm (lookupOrder namespace)"

text \<open>The error of line 193, which the specification calls \<^verbatim>\<open>NotFound\<close>.\<close>

definition NotFound :: error where
  "NotFound = Errorf ''no IP address ranges could be found either range-global or range-<namespace>''"

subsection \<open>The retry helper\<close>

text \<open>
  Modelled from the spec: \<^verbatim>\<open>wait.Backoff\<close>, the retry policy of the library
  k8s.io/client-go, which is not part of the source tree. Only the number of attempts
  is kept; the pauses between attempts (duration, factor, jitter) are not modelled.
\<close>

record Backoff =
  Steps :: nat

text \<open>
  Modelled from the spec: \<^verbatim>\<open>retry.RetryOnConflict\<close> of the library k8s.io/client-go,
  which is not part of the source tree. The spec describes the loop as "on a
  version-conflict error, re-read and retry, bounded by a fixed retry policy (bounded
  number of attempts with backoff); any other write error or retry-budget exhaustion
  moves to Failed". \<open>retryLoop\<close> runs the function at most \<open>n\<close> times: nil, or an error
  that is not a conflict, ends the loop with that value; a conflict is remembered and,
  while attempts remain, the function runs again; when the budget is spent the
  remembered conflict is the result.
\<close>

fun retryLoop ::
  "nat \<Rightarrow> ('w \<Rightarrow> error option \<times> 'w) \<Rightarrow> error option \<Rightarrow> 'w \<Rightarrow> error option \<times> 'w" where
  "retryLoop 0 fn lastErr w = (lastErr, w)"
| "retryLoop (Suc n) fn lastErr w =
     (case fn w of
        (None, w') \<Rightarrow> (None, w')
      | (Some e, w') \<Rightarrow> if IsConflict e then retryLoop n fn (Some e) w' else (Some e, w'))"

text \<open>
  Modelled from the spec: the entry point of the loop above, with the budget of the
  policy and no conflict remembered yet.
\<close>

definition RetryOnConflict ::
  "Backoff \<Rightarrow> ('w \<Rightarrow> error option \<times> 'w) \<Rightarrow> 'w \<Rightarrow> error option \<times> 'w" where
  "RetryOnConflict backoff fn w = retryLoop (Steps backoff) fn None w"

text \<open>
  Modelled from the spec: \<^verbatim>\<open>retry.DefaultRetry\<close>, the "fixed retry policy" of the spec.
  The library sets its budget to five attempts.
\<close>

definition DefaultRetry :: Backoff where
  "DefaultRetry = \<lparr>Steps = 5\<rparr>"

subsection \<open>syncLoadBalancer\<close>

text \<open>Lines 103-106: the loop that appends the \<^verbatim>\<open>ipam-address\<close> label of every listed service.\<close>

fun appendServiceIPS :: "string list \<Rightarrow> 'x Service_scheme list \<Rightarrow> string list" where
  "appendServiceIPS existingServiceIPS [] = existingServiceIPS"
| "appendServiceIPS existingServiceIPS (item # items) =
     appendServiceIPS (existingServiceIPS @ [index (Labels item) ''ipam-address'']) items"

text \<open>Lines 116-138: the function literal handed to \<^verbatim>\<open>retry.RetryOnConflict\<close>.\<close>

definition updateService ::
  "('s, 'x) collaborators \<Rightarrow> 'x Service_scheme \<Rightarrow> string \<Rightarrow> ('s, 'x) world
    \<Rightarrow> error option \<times> ('s, 'x) world" where
  "updateService env service loadBalancerIP w0 =
     (case Services_Get env (Namespace service) (Name service) w0 of
        (Inl getErr, w1) \<Rightarrow> (Some getErr, w1)
      | (Inr recentService, w1) \<Rightarrow>
          (let w2 = klog_Info (''Updating service ['' @ Name service
                      @ ''], with load balancer IPAM address ['' @ loadBalancerIP @ '']'') w1;
               labels0 = (case Labels recentService of None \<Rightarrow> Map.empty | Some m \<Rightarrow> m);
               labels1 = labels0(''implementation'' \<mapsto> ''kube-vip'');
               labels2 = labels1(''ipam-address'' \<mapsto> loadBalancerIP);
               recentService' = recentService\<lparr>Labels := Some labels2,
                                               Spec_LoadBalancerIP := loadBalancerIP\<rparr>
           in case Services_Update env (Namespace recentService') recentService' w2 of
                (Inl updateErr, w3) \<Rightarrow> (Some updateErr, w3)
              | (Inr _, w3) \<Rightarrow> (None, w3)))"

text \<open>Lines 77-144. The result is Go's pair \<^verbatim>\<open>(*v1.LoadBalancerStatus, error)\<close>.\<close>

definition syncLoadBalancer ::
  "('s, 'x) collaborators \<Rightarrow> kubevipLoadBalancerManager \<Rightarrow> 'x Service_scheme \<Rightarrow> ('s, 'x) world
    \<Rightarrow> (LoadBalancerStatus option \<times> error option) \<times> ('s, 'x) world" where
  "syncLoadBalancer env k service w0 =
     (let w1 = klog_Info (''syncing service '' @ [CHR 0x27] @ Name service @ [CHR 0x27]
                          @ '' ('' @ UID service @ '')'') w0
      in if Spec_LoadBalancerIP service \<noteq> '''' then ((Some (Status_LoadBalancer service), None), w1)
         else
           (case Services_List env (Namespace service) ''implementation=kube-vip'' w1 of
              (Inl err, w2) \<Rightarrow> ((Some (Status_LoadBalancer service), Some err), w2)
            | (Inr svcs, w2) \<Rightarrow>
                (case (case k_GetConfigMap env (clientConfigName env) ''kube-system'' w2 of
                         (Inl err, w3) \<Rightarrow>
                           k_CreateConfigMap env (clientConfigName env) ''kube-system''
                             (klog_Error (''Unable to retrieve kube-vip ipam config from configMap [''
                                          @ clientConfigName env @ ''] in kube-system'') w3)
                       | (Inr cm, w3) \<Rightarrow> (Inr cm, w3)) of
                   (Inl err, w4) \<Rightarrow> ((None, Some err), w4)
                 | (Inr controllerCM, w4) \<Rightarrow>
                     (let existingServiceIPS = appendServiceIPS [] svcs
                      in case discoverAddress env controllerCM (Namespace service)
                                (cloudConfigMap k) existingServiceIPS w4 of
                           ((loadBalancerIP, err), w5) \<Rightarrow>
                             if err \<noteq> None then ((None, err), w5)
                             else
                               (case RetryOnConflict DefaultRetry
                                       (updateService env service loadBalancerIP) w5 of
                                  (retryErr, w6) \<Rightarrow>
                                    if retryErr \<noteq> None
                                    then ((None, Some (Errorf (''error updating Service Spec [''
                                            @ Name service @ ''] : '' @ fmt_v err))), w6)
                                    else ((Some (Status_LoadBalancer service), None), w6))))))"

definition EnsureLoadBalancer ::
  "('s, 'x) collaborators \<Rightarrow> kubevipLoadBalancerManager \<Rightarrow> string \<Rightarrow> 'x Service_scheme
    \<Rightarrow> ('s, 'x) world \<Rightarrow> (LoadBalancerStatus option \<times> error option) \<times> ('s, 'x) world" where
  "EnsureLoadBalancer env k clusterName service w = syncLoadBalancer env k service w"

definition UpdateLoadBalancer ::
  "('s, 'x) collaborators \<Rightarrow> kubevipLoadBalancerManager \<Rightarrow> string \<Rightarrow> 'x Service_scheme
    \<Rightarrow> ('s, 'x) world \<Rightarrow> error option \<times> ('s, 'x) world" where
  "UpdateLoadBalancer env k clusterName service w =
     (case syncLoadBalancer env k service w of ((_, err), w') \<Rightarrow> (err, w'))"

subsection \<open>Observing a run\<close>

text \<open>
  \<open>events w w'\<close> are the calls made between the worlds \<open>w\<close> and \<open>w'\<close>; \<open>emits P w w'\<close>
  says that \<open>w'\<close> continues the trace of \<open>w\<close> and that every call made in between
  satisfies \<open>P\<close>.
\<close>

definition events :: "('s, 'x) world \<Rightarrow> ('s, 'x) world \<Rightarrow> 'x Service_scheme call list" where
  "events w w' = drop (length (trace w)) (trace w')"

definition emits ::
  "('x Service_scheme call \<Rightarrow> bool) \<Rightarrow> ('s, 'x) world \<Rightarrow> ('s, 'x) world \<Rightarrow> bool" where
  "emits P w w' = (take (length (trace w)) (trace w') = trace w \<and> list_all P (events w w'))"

fun isRead :: "'o call \<Rightarrow> bool" where
  "isRead (ServicesGet ns name) = True"
| "isRead c = False"

fun isWrite :: "'o call \<Rightarrow> bool" where
  "isWrite (ServicesUpdate ns obj) = True"
| "isWrite c = False"

fun isInfo :: "'o call \<Rightarrow> bool" where
  "isInfo (Klog l m) = (l = InfoLevel)"
| "isInfo c = False"

text \<open>
  The calls \<open>syncLoadBalancer\<close> makes for an unbound service before it reaches
  \<open>discoverAddress\<close>, when the listing succeeds: the first log line, the listing, the
  read of the configuration document and, when that read fails in the collaborator
  state \<open>s\<close>, the error log line and the creation of the document.
\<close>

definition resolvingCalls ::
  "('s, 'x) collaborators \<Rightarrow> 'x Service_scheme \<Rightarrow> 's \<Rightarrow> 'x Service_scheme call list" where
  "resolvingCalls env service s =
     [Klog InfoLevel (''syncing service '' @ [CHR 0x27] @ Name service @ [CHR 0x27]
                      @ '' ('' @ UID service @ '')''),
      ServicesList (Namespace service) ''implementation=kube-vip'',
      GetConfigMap (clientConfigName env) ''kube-system'']
     @ (case fst (cmGet env (clientConfigName env) ''kube-system'' s) of
          Inl e \<Rightarrow> [Klog ErrorLevel (''Unable to retrieve kube-vip ipam config from configMap [''
                                     @ clientConfigName env @ ''] in kube-system''),
                    CreateConfigMap (clientConfigName env) ''kube-system'']
        | Inr cm \<Rightarrow> [])"

text \<open>A call of package ipam for the namespace \<open>ns\<close> with the exclusion list \<open>ex\<close>.\<close>

fun allocates :: "string \<Rightarrow> string list \<Rightarrow> 'o call \<Rightarrow> bool" where
  "allocates ns ex (FindAvailableHostFromCidr ns' cidr ex') = (ns' = ns \<and> ex' = ex)"
| "allocates ns ex (FindAvailableHostFromRange ns' ipRange ex') = (ns' = ns \<and> ex' = ex)"
| "allocates ns ex c = False"

text \<open>An update that carries the ownership label, the address label and the address field.\<close>

fun binds :: "string \<Rightarrow> 'x Service_scheme call \<Rightarrow> bool" where
  "binds ip (ServicesUpdate ns obj) =
     (ns = Namespace obj \<and> index (Labels obj) ''implementation'' = ''kube-vip''
      \<and> index (Labels obj) ''ipam-address'' = ip \<and> Spec_LoadBalancerIP obj = ip)"
| "binds ip c = False"

fun isList :: "'o call \<Rightarrow> bool" where
  "isList (ServicesList ns selector) = True"
| "isList c = False"

fun isAllocation :: "'o call \<Rightarrow> bool" where
  "isAllocation (FindAvailableHostFromCidr ns cidr ex) = True"
| "isAllocation (FindAvailableHostFromRange ns ipRange ex) = True"
| "isAllocation c = False"

text \<open>
  What \<open>GetLoadBalancer\<close> makes of the calls of a run: an update whose object carries
  the ownership label \<^verbatim>\<open>implementation=kube-vip\<close> and is nevertheless reported as not
  existing, and a listing with the selector \<^verbatim>\<open>implementation=kube-vip\<close>.
\<close>

fun unseen :: "'x Service_scheme call \<Rightarrow> bool" where
  "unseen (ServicesUpdate ns obj) =
     (index (Labels obj) ''implementation'' = ''kube-vip'' \<and> GetLoadBalancer obj = (None, False, None))"
| "unseen (ServicesList ns selector) = (selector = ''implementation=kube-vip'')"
| "unseen c = True"

text \<open>The world after \<open>i\<close> runs of a function, each started where the one before ended.\<close>

definition after :: "nat \<Rightarrow> ('w \<Rightarrow> error option \<times> 'w) \<Rightarrow> 'w \<Rightarrow> 'w" where
  "after i fn w = ((\<lambda>u. snd (fn u)) ^^ i) w"

subsection \<open>A scripted set of collaborators, for concrete runs\<close>

definition web :: Service where
  "web = \<lparr>Name = ''web'', Namespace = ''default'', UID = ''u-1'', Labels = None,
          Spec_LoadBalancerIP = '''', Status_LoadBalancer = \<lparr>Ingress = []\<rparr>\<rparr>"

definition db :: Service where
  "db = \<lparr>Name = ''db'', Namespace = ''default'', UID = ''u-2'',
         Labels = Some [''implementation'' \<mapsto> ''kube-vip'', ''ipam-address'' \<mapsto> ''192.168.1.1''],
         Spec_LoadBalancerIP = ''192.168.1.1'',
         Status_LoadBalancer = \<lparr>Ingress = [\<lparr>IP = ''192.168.1.1'', Hostname = []\<rparr>]\<rparr>\<rparr>"

definition orphan :: Service where
  "orphan = \<lparr>Name = ''orphan'', Namespace = ''default'', UID = ''u-3'',
             Labels = Some [''implementation'' \<mapsto> ''kube-vip''],
             Spec_LoadBalancerIP = '''', Status_LoadBalancer = \<lparr>Ingress = []\<rparr>\<rparr>"

text \<open>A stand-in for package ipam: the first candidate that is not claimed.\<close>

definition firstFree :: "string list \<Rightarrow> string list \<Rightarrow> string \<times> error option" where
  "firstFree pool existing =
     (case filter (\<lambda>a. a \<notin> set existing) pool of
        [] \<Rightarrow> ('''', Some (Errorf ''no addresses available''))
      | a # _ \<Rightarrow> (a, None))"

text \<open>
  The collaborator state is the number of updates answered so far: the first
  \<open>conflicts\<close> updates are refused with a version conflict, later ones are accepted.
  The list call answers \<open>listed\<close>, the read of the target answers \<open>web\<close>, the
  configuration document is \<open>cm\<close>.
\<close>

definition scripted ::
  "nat \<Rightarrow> Service list \<Rightarrow> ConfigMap \<Rightarrow> (nat, unit) collaborators" where
  "scripted conflicts listed cm =
     \<lparr>svcList = (\<lambda>ns selector s. (Inr listed, s)),
      svcGet = (\<lambda>ns name s. (Inr web, s)),
      svcUpdate = (\<lambda>ns obj s.
        (if s < conflicts then Inl (StatusError StatusReasonConflict ''object has been modified'')
         else Inr obj, Suc s)),
      cmGet = (\<lambda>name ns s. (Inr cm, s)),
      cmCreate = (\<lambda>name ns s. (Inl (Errorf ''forbidden''), s)),
      hostFromCidr = (\<lambda>ns cidr existing s. (firstFree [''192.168.1.1'', ''192.168.1.2''] existing, s)),
      hostFromRange = (\<lambda>ns ipRange existing s. (firstFree [''10.0.0.1'', ''10.0.0.2''] existing, s)),
      clientConfigName = ''kubevip''\<rparr>"

definition manager :: kubevipLoadBalancerManager where
  "manager = \<lparr>nameSpace = ''kube-system'', cloudConfigMap = ''kubevip''\<rparr>"

definition start :: "(nat, unit) world" where
  "start = \<lparr>api = 0, trace = []\<rparr>"

definition pools :: ConfigMap where
  "pools = \<lparr>Data = [''cidr-default'' \<mapsto> ''192.168.1.0/30'', ''range-global'' \<mapsto> ''10.0.0.1-10.0.0.2'']\<rparr>"

section \<open>Properties\<close>

subsection \<open>Traces\<close>

lemma emits_iff: "emits P w w' \<longleftrightarrow> (\<exists>new. trace w' = trace w @ new \<and> list_all P new)"
proof
  assume "emits P w w'"
  then have "trace w' = trace w @ events w w'" and "list_all P (events w w')"
    unfolding emits_def events_def by (metis append_take_drop_id)+
  then show "\<exists>new. trace w' = trace w @ new \<and> list_all P new" by blast
next
  assume "\<exists>new. trace w' = trace w @ new \<and> list_all P new"
  then show "emits P w w'" by (auto simp: emits_def events_def)
qed

lemma events_append: "trace w' = trace w @ new \<Longrightarrow> events w w' = new"
  by (simp add: events_def)

lemma emits_refl: "emits P w w"
  by (simp add: emits_iff)

lemma emits_trans: "emits P w w' \<Longrightarrow> emits P w' w'' \<Longrightarrow> emits P w w''"
  by (auto simp: emits_iff)

lemma emits_mono: "emits P w w' \<Longrightarrow> (\<And>c. P c \<Longrightarrow> Q c) \<Longrightarrow> emits Q w w'"
  by (auto simp: emits_iff list_all_iff)

lemmas run_defs = klog_Info_def klog_Error_def emit_def perform_def Services_List_def Services_Get_def
  Services_Update_def k_GetConfigMap_def k_CreateConfigMap_def ipam_FindAvailableHostFromCidr_def
  ipam_FindAvailableHostFromRange_def

subsection \<open>The deletion path\<close>

text \<open>
  C7. Deleting a load balancer writes one informational log line and nothing else: the
  collaborator state is the one it started from, no call other than the log line is
  made, and the error returned is nil, for every service. \<^verbatim>\<open>EnsureLoadBalancerDeleted\<close>
  is that function.
\<close>

theorem deleteLoadBalancer_only_logs:
  "deleteLoadBalancer service w =
     (None, w\<lparr>trace := trace w @ [Klog InfoLevel (''deleting service '' @ [CHR 0x27] @ Name service
                                      @ [CHR 0x27] @ '' ('' @ UID service @ '')'')]\<rparr>)
   \<and> api (snd (deleteLoadBalancer service w)) = api w
   \<and> EnsureLoadBalancerDeleted clusterName service w = deleteLoadBalancer service w"
  by (simp add: deleteLoadBalancer_def EnsureLoadBalancerDeleted_def klog_Info_def emit_def)

subsection \<open>A bound request is left alone\<close>

text \<open>
  C1. When \<^verbatim>\<open>Spec.LoadBalancerIP\<close> of the service is not empty, \<open>syncLoadBalancer\<close>
  returns the status of that service with a nil error; the only call it makes is its
  first log line: no list, no read of the configuration, no allocation, no read or
  update of a service, and the collaborator state is untouched. The entry points
  \<^verbatim>\<open>EnsureLoadBalancer\<close> and \<^verbatim>\<open>UpdateLoadBalancer\<close> do the same.
\<close>

theorem syncLoadBalancer_bound_is_noop:
  assumes "Spec_LoadBalancerIP service \<noteq> ''''"
  shows "syncLoadBalancer env k service w =
           ((Some (Status_LoadBalancer service), None),
            w\<lparr>trace := trace w @ [Klog InfoLevel (''syncing service '' @ [CHR 0x27] @ Name service
                                      @ [CHR 0x27] @ '' ('' @ UID service @ '')'')]\<rparr>)
         \<and> api (snd (syncLoadBalancer env k service w)) = api w
         \<and> EnsureLoadBalancer env k clusterName service w = syncLoadBalancer env k service w
         \<and> UpdateLoadBalancer env k clusterName service w = (None, snd (syncLoadBalancer env k service w))"
  using assms
  by (simp add: syncLoadBalancer_def EnsureLoadBalancer_def UpdateLoadBalancer_def klog_Info_def emit_def)

theorem syncLoadBalancer_bound_is_noop_witness:
  "Spec_LoadBalancerIP db \<noteq> ''''
   \<and> syncLoadBalancer (scripted 0 [db] \<lparr>Data = Map.empty\<rparr>) manager db start =
       ((Some \<lparr>Ingress = [\<lparr>IP = ''192.168.1.1'', Hostname = []\<rparr>]\<rparr>, None),
        \<lparr>api = 0, trace = [Klog InfoLevel (''syncing service '' @ [CHR 0x27] @ ''db'' @ [CHR 0x27] @ '' (u-2)'')]\<rparr>)"
  using syncLoadBalancer_bound_is_noop [of db "scripted 0 [db] \<lparr>Data = Map.empty\<rparr>" manager start]
  by (simp add: db_def start_def)

subsection \<open>The list of existing addresses\<close>

lemma appendServiceIPS_map:
  "appendServiceIPS acc svcs = acc @ map (\<lambda>s. index (Labels s) ''ipam-address'') svcs"
  by (induction svcs arbitrary: acc) simp_all

subsection \<open>Pool resolution\<close>

text \<open>
  C2. \<open>discoverAddress\<close> follows the resolver of the specification. When the first of
  the keys \<^verbatim>\<open>cidr-<namespace>\<close>, \<^verbatim>\<open>cidr-global\<close>, \<^verbatim>\<open>range-<namespace>\<close>,
  \<^verbatim>\<open>range-global\<close> that is present is a CIDR key, the answer is the one of
  \<^verbatim>\<open>FindAvailableHostFromCidr\<close> for the text under that key (and the address is emptied
  when it reports an error), and that call is the only call besides informational log
  lines; likewise with \<^verbatim>\<open>FindAvailableHostFromRange\<close> for a range key. When none of the
  four is present the answer is the error \<open>NotFound\<close>, package ipam is not called and
  the collaborator state is unchanged. The run ends with \<open>NotFound\<close> having made only
  informational log lines exactly when all four keys are absent. Two configuration
  documents that agree on the four keys give the same run: no other key is consulted.
\<close>

theorem discoverAddress_lookup_order:
  fixes env :: "('s, 'x) collaborators" and namespace cmName existing w
  defines "run \<equiv> (\<lambda>c. discoverAddress env c namespace cmName existing w)"
  shows
  "(case resolve namespace cm of
      Some (CIDRBlock cidr) \<Rightarrow>
        (case hostFromCidr env namespace cidr existing (api w) of
           ((vip, err), s) \<Rightarrow>
             fst (run cm) = ((if err \<noteq> None then '''' else vip), err) \<and> api (snd (run cm)) = s)
        \<and> filter (\<lambda>c. \<not> isInfo c) (events w (snd (run cm)))
            = [FindAvailableHostFromCidr namespace cidr existing]
    | Some (AddressRange ipRange) \<Rightarrow>
        (case hostFromRange env namespace ipRange existing (api w) of
           ((vip, err), s) \<Rightarrow> fst (run cm) = (vip, err) \<and> api (snd (run cm)) = s)
        \<and> filter (\<lambda>c. \<not> isInfo c) (events w (snd (run cm)))
            = [FindAvailableHostFromRange namespace ipRange existing]
    | None \<Rightarrow>
        fst (run cm) = ('''', Some NotFound) \<and> api (snd (run cm)) = api w
        \<and> filter (\<lambda>c. \<not> isInfo c) (events w (snd (run cm))) = [])
   \<and> (resolve namespace cm = None \<longleftrightarrow>
        Data cm (''cidr-'' @ namespace) = None \<and> Data cm ''cidr-global'' = None
        \<and> Data cm (''range-'' @ namespace) = None \<and> Data cm ''range-global'' = None)
   \<and> (fst (run cm) = ('''', Some NotFound) \<and> list_all isInfo (events w (snd (run cm))) \<longleftrightarrow>
        Data cm (''cidr-'' @ namespace) = None \<and> Data cm ''cidr-global'' = None
        \<and> Data cm (''range-'' @ namespace) = None \<and> Data cm ''range-global'' = None)
   \<and> (Data cm' (''cidr-'' @ namespace) = Data cm (''cidr-'' @ namespace)
        \<and> Data cm' ''cidr-global'' = Data cm ''cidr-global''
        \<and> Data cm' (''range-'' @ namespace) = Data cm (''range-'' @ namespace)
        \<and> Data cm' ''range-global'' = Data cm ''range-global''
       \<longrightarrow> run cm' = run cm)"
proof -
  note defs = run_def resolve_def lookupOrder_def discoverAddress_def run_defs events_def NotFound_def
    split_def
  show ?thesis
  proof (cases "Data cm (''cidr-'' @ namespace)")
    case (Some cidr)
    then show ?thesis by (simp add: defs)
  next
    case none1: None
    show ?thesis
    proof (cases "Data cm ''cidr-global''")
      case (Some cidr)
      with none1 show ?thesis by (simp add: defs)
    next
      case none2: None
      show ?thesis
      proof (cases "Data cm (''range-'' @ namespace)")
        case (Some ipRange)
        with none1 none2 show ?thesis by (simp add: defs)
      next
        case none3: None
        show ?thesis
        proof (cases "Data cm ''range-global''")
          case (Some ipRange)
          with none1 none2 none3 show ?thesis by (simp add: defs)
        next
          case None
          with none1 none2 none3 show ?thesis by (simp add: defs)
        qed
      qed
    qed
  qed
qed

theorem discoverAddress_lookup_order_witness:
  "resolve ''default'' pools = Some (CIDRBlock ''192.168.1.0/30'')
   \<and> fst (discoverAddress (scripted 0 [] pools) pools ''default'' ''kubevip'' [] start) = (''192.168.1.1'', None)
   \<and> filter (\<lambda>c. \<not> isInfo c) (events start (snd (discoverAddress (scripted 0 [] pools) pools ''default'' ''kubevip'' [] start)))
        = [FindAvailableHostFromCidr ''default'' ''192.168.1.0/30'' []]
   \<and> Data (pools\<lparr>Data := (Data pools)(''other'' \<mapsto> ''x'')\<rparr>) ''cidr-default'' = Data pools ''cidr-default''
   \<and> discoverAddress (scripted 0 [] pools) (pools\<lparr>Data := (Data pools)(''other'' \<mapsto> ''x'')\<rparr>) ''default'' ''kubevip'' [] start
       = discoverAddress (scripted 0 [] pools) pools ''default'' ''kubevip'' [] start"
  using discoverAddress_lookup_order [where namespace = "''default''" and cm = pools
          and env = "scripted 0 [] pools" and existing = "[]" and w = start and cmName = "''kubevip''"
          and cm' = "pools\<lparr>Data := (Data pools)(''other'' \<mapsto> ''x'')\<rparr>"]
  by (simp add: resolve_def lookupOrder_def pools_def scripted_def firstFree_def start_def)

subsection \<open>The calls of the parts of a reconciliation\<close>

lemma discoverAddress_emits:
  "emits (\<lambda>c. isInfo c \<or> allocates ns ex c) w (snd (discoverAddress env cm ns n ex w))"
  by (cases "Data cm (''cidr-'' @ ns)"; cases "Data cm ''cidr-global''";
      cases "Data cm (''range-'' @ ns)"; cases "Data cm ''range-global''")
     (simp_all add: discoverAddress_def run_defs emits_iff split_def)

lemma syncLoadBalancer_unbound:
  assumes unbound: "Spec_LoadBalancerIP service = ''''"
    and listed: "svcList env (Namespace service) ''implementation=kube-vip'' (api w) = (Inr svcs, s1)"
    and config: "cmGet env (clientConfigName env) ''kube-system'' s1 = (Inr cm, s2)
                 \<or> (\<exists>e s. cmGet env (clientConfigName env) ''kube-system'' s1 = (Inl e, s)
                          \<and> cmCreate env (clientConfigName env) ''kube-system'' s = (Inr cm, s2))"
  shows "syncLoadBalancer env k service w =
     (case discoverAddress env cm (Namespace service) (cloudConfigMap k) (appendServiceIPS [] svcs)
             \<lparr>api = s2, trace = trace w @ resolvingCalls env service s1\<rparr> of
        ((loadBalancerIP, err), w5) \<Rightarrow>
          if err \<noteq> None then ((None, err), w5)
          else
            (case RetryOnConflict DefaultRetry (updateService env service loadBalancerIP) w5 of
               (retryErr, w6) \<Rightarrow>
                 if retryErr \<noteq> None
                 then ((None, Some (Errorf (''error updating Service Spec [''
                         @ Name service @ ''] : '' @ fmt_v err))), w6)
                 else ((Some (Status_LoadBalancer service), None), w6)))"
  using config
proof
  assume "cmGet env (clientConfigName env) ''kube-system'' s1 = (Inr cm, s2)"
  then show ?thesis
    using unbound listed
    by (simp add: syncLoadBalancer_def run_defs resolvingCalls_def)
next
  assume "\<exists>e s. cmGet env (clientConfigName env) ''kube-system'' s1 = (Inl e, s)
                 \<and> cmCreate env (clientConfigName env) ''kube-system'' s = (Inr cm, s2)"
  then obtain e s where "cmGet env (clientConfigName env) ''kube-system'' s1 = (Inl e, s)"
    and "cmCreate env (clientConfigName env) ''kube-system'' s = (Inr cm, s2)" by blast
  then show ?thesis
    using unbound listed
    by (simp add: syncLoadBalancer_def run_defs resolvingCalls_def)
qed


lemma retryLoop_emits:
  assumes "\<And>u. emits P u (snd (fn u))"
  shows "emits P w (snd (retryLoop n fn lastErr w))"
proof (induction n arbitrary: w lastErr)
  case 0
  show ?case by (simp add: emits_refl)
next
  case (Suc n)
  obtain r w' where run: "fn w = (r, w')" by (cases "fn w")
  have step: "emits P w w'" using assms [of w] run by simp
  show ?case
  proof (cases r)
    case None
    then show ?thesis using run step by simp
  next
    case (Some e)
    then show ?thesis
      using run step Suc.IH [of w' "Some e"] by (auto intro: emits_trans)
  qed
qed

lemma updateService_emits:
  "emits (\<lambda>c. c = ServicesGet (Namespace service) (Name service) \<or> isInfo c \<or> binds ip c)
     w (snd (updateService env service ip w))"
  by (simp add: updateService_def run_defs emits_iff index_def split_def Let_def split: sum.splits)

lemma allocation_no_persistence: "isInfo c \<or> allocates ns ex c \<Longrightarrow> \<not> isRead c \<and> \<not> isWrite c"
  by (cases c) simp_all

subsection \<open>Failure before persistence\<close>

text \<open>
  C3. Take an unbound service for which the listing succeeds and the configuration
  document is obtained (read, or created after a failed read). If \<open>discoverAddress\<close>
  then answers an error (no pool, a pool that package ipam rejects, or no free
  address), \<open>syncLoadBalancer\<close> returns a nil status with exactly that error, and in
  the whole run no service is read and no service is updated: the persistence loop is
  not entered, so neither a label nor the address field is written.
\<close>

theorem syncLoadBalancer_failure_writes_nothing:
  assumes unbound: "Spec_LoadBalancerIP service = ''''"
    and listed: "svcList env (Namespace service) ''implementation=kube-vip'' (api w) = (Inr svcs, s1)"
    and config: "cmGet env (clientConfigName env) ''kube-system'' s1 = (Inr cm, s2)
                 \<or> (\<exists>e s. cmGet env (clientConfigName env) ''kube-system'' s1 = (Inl e, s)
                          \<and> cmCreate env (clientConfigName env) ''kube-system'' s = (Inr cm, s2))"
    and failed: "fst (discoverAddress env cm (Namespace service) (cloudConfigMap k)
                        (appendServiceIPS [] svcs)
                        \<lparr>api = s2, trace = trace w @ resolvingCalls env service s1\<rparr>) = (vip, Some e)"
  shows "fst (syncLoadBalancer env k service w) = (None, Some e)
         \<and> emits (\<lambda>c. \<not> isRead c \<and> \<not> isWrite c) w (snd (syncLoadBalancer env k service w))"
proof -
  define w4 where "w4 = \<lparr>api = s2, trace = trace w @ resolvingCalls env service s1\<rparr>"
  define run where "run = discoverAddress env cm (Namespace service) (cloudConfigMap k)
                            (appendServiceIPS [] svcs) w4"
  have outcome: "fst run = (vip, Some e)"
    using failed by (simp add: run_def w4_def)
  have sync: "syncLoadBalancer env k service w = ((None, Some e), snd run)"
    using syncLoadBalancer_unbound [OF unbound listed config, of k] outcome
    by (simp add: run_def w4_def split_def)
  have pre: "emits (\<lambda>c. \<not> isRead c \<and> \<not> isWrite c) w w4"
    by (simp add: emits_iff w4_def resolvingCalls_def split: sum.splits)
  have "emits (\<lambda>c. isInfo c \<or> allocates (Namespace service) (appendServiceIPS [] svcs) c) w4 (snd run)"
    unfolding run_def by (rule discoverAddress_emits)
  then have "emits (\<lambda>c. \<not> isRead c \<and> \<not> isWrite c) w4 (snd run)"
    by (rule emits_mono) (rule allocation_no_persistence)
  with pre have "emits (\<lambda>c. \<not> isRead c \<and> \<not> isWrite c) w (snd run)" by (rule emits_trans)
  with sync show ?thesis by simp
qed

theorem syncLoadBalancer_failure_writes_nothing_witness:
  "Spec_LoadBalancerIP web = ''''
   \<and> svcList (scripted 0 [db] \<lparr>Data = Map.empty\<rparr>) (Namespace web) ''implementation=kube-vip'' (api start)
       = (Inr [db], 0)
   \<and> cmGet (scripted 0 [db] \<lparr>Data = Map.empty\<rparr>) (clientConfigName (scripted 0 [db] \<lparr>Data = Map.empty\<rparr>))
       ''kube-system'' 0 = (Inr \<lparr>Data = Map.empty\<rparr>, 0)
   \<and> fst (discoverAddress (scripted 0 [db] \<lparr>Data = Map.empty\<rparr>) \<lparr>Data = Map.empty\<rparr> (Namespace web)
            (cloudConfigMap manager) (appendServiceIPS [] [db])
            \<lparr>api = 0, trace = trace start @ resolvingCalls (scripted 0 [db] \<lparr>Data = Map.empty\<rparr>) web 0\<rparr>)
       = ('''', Some NotFound)
   \<and> fst (syncLoadBalancer (scripted 0 [db] \<lparr>Data = Map.empty\<rparr>) manager web start) = (None, Some NotFound)
   \<and> emits (\<lambda>c. \<not> isRead c \<and> \<not> isWrite c) start
        (snd (syncLoadBalancer (scripted 0 [db] \<lparr>Data = Map.empty\<rparr>) manager web start))"
proof -
  let ?env = "scripted 0 [db] \<lparr>Data = Map.empty\<rparr>"
  have unbound: "Spec_LoadBalancerIP web = ''''" by (simp add: web_def)
  have listed: "svcList ?env (Namespace web) ''implementation=kube-vip'' (api start) = (Inr [db], 0)"
    by (simp add: scripted_def start_def)
  have config: "cmGet ?env (clientConfigName ?env) ''kube-system'' 0 = (Inr \<lparr>Data = Map.empty\<rparr>, 0)"
    by (simp add: scripted_def)
  have failed: "fst (discoverAddress ?env \<lparr>Data = Map.empty\<rparr> (Namespace web) (cloudConfigMap manager)
                  (appendServiceIPS [] [db])
                  \<lparr>api = 0, trace = trace start @ resolvingCalls ?env web 0\<rparr>) = ('''', Some NotFound)"
    by (simp add: discoverAddress_def run_defs NotFound_def)
  show ?thesis
    using syncLoadBalancer_failure_writes_nothing [OF unbound listed disjI1 [OF config] failed]
      unbound listed config failed
    by simp
qed

lemma persistence_calls:
  "c = ServicesGet ns name \<or> isInfo c \<or> binds ip c \<Longrightarrow> \<not> isList c \<and> \<not> isAllocation c"
  by (cases c) auto

lemma allocation_calls:
  "isInfo c \<or> allocates ns ex c \<Longrightarrow> \<not> isList c \<and> (isAllocation c \<longrightarrow> allocates ns ex c)"
  by (cases c) auto

lemma RetryOnConflict_emits:
  assumes "\<And>u. emits P u (snd (fn u))"
  shows "emits P w (snd (RetryOnConflict backoff fn w))"
  unfolding RetryOnConflict_def using assms by (rule retryLoop_emits)

subsection \<open>Concrete runs with the scripted collaborators\<close>

lemmas model_defs = syncLoadBalancer_def discoverAddress_def updateService_def RetryOnConflict_def
  DefaultRetry_def run_defs fmt_v_def index_def

lemmas fixture_defs = scripted_def manager_def web_def db_def orphan_def start_def firstFree_def pools_def

lemma web_unbound: "Spec_LoadBalancerIP web = ''''"
  by (simp add: web_def)

lemma scripted_listed:
  "svcList (scripted n listed cm) (Namespace web) ''implementation=kube-vip'' (api start) = (Inr listed, 0)"
  by (simp add: scripted_def start_def)

lemma scripted_config:
  "cmGet (scripted n listed cm) (clientConfigName (scripted n listed cm)) ''kube-system'' 0 = (Inr cm, 0)"
  by (simp add: scripted_def)

lemma scripted_allocation:
  "fst (discoverAddress (scripted n [db, orphan, db] pools) pools (Namespace web) (cloudConfigMap manager)
          (appendServiceIPS [] [db, orphan, db])
          \<lparr>api = 0, trace = trace start @ resolvingCalls (scripted n [db, orphan, db] pools) web 0\<rparr>)
     = (''192.168.1.2'', None)"
  by (simp add: discoverAddress_def run_defs fixture_defs index_def)

lemma run_two_conflicts:
  "fst (syncLoadBalancer (scripted 2 [db, orphan, db] pools) manager web start) = (Some \<lparr>Ingress = []\<rparr>, None)
   \<and> api (snd (syncLoadBalancer (scripted 2 [db, orphan, db] pools) manager web start)) = 3
   \<and> filter isAllocation (events start (snd (syncLoadBalancer (scripted 2 [db, orphan, db] pools) manager web start)))
      = [FindAvailableHostFromCidr ''default'' ''192.168.1.0/30'' [''192.168.1.1'', '''', ''192.168.1.1'']]"
  by (simp add: model_defs fixture_defs events_def eval_nat_numeral)

lemma run_written:
  "snd (fst (syncLoadBalancer (scripted 2 [db, orphan, db] pools) manager web start)) = None
   \<and> last (events start (snd (syncLoadBalancer (scripted 2 [db, orphan, db] pools) manager web start)))
       = ServicesUpdate ''default''
           \<lparr>Name = ''web'', Namespace = ''default'', UID = ''u-1'',
            Labels = Some [''implementation'' \<mapsto> ''kube-vip'', ''ipam-address'' \<mapsto> ''192.168.1.2''],
            Spec_LoadBalancerIP = ''192.168.1.2'', Status_LoadBalancer = \<lparr>Ingress = []\<rparr>\<rparr>
   \<and> filter isWrite (events start (snd (syncLoadBalancer (scripted 2 [db, orphan, db] pools) manager web start)))
       = replicate 3 (ServicesUpdate ''default''
           \<lparr>Name = ''web'', Namespace = ''default'', UID = ''u-1'',
            Labels = Some [''implementation'' \<mapsto> ''kube-vip'', ''ipam-address'' \<mapsto> ''192.168.1.2''],
            Spec_LoadBalancerIP = ''192.168.1.2'', Status_LoadBalancer = \<lparr>Ingress = []\<rparr>\<rparr>)"
  by (simp add: model_defs fixture_defs events_def eval_nat_numeral)

subsection \<open>The claimed addresses come from the listing\<close>

text \<open>
  C4. Take an unbound service for which the listing succeeds with the services \<open>svcs\<close>
  and the configuration document is obtained. Then \<open>discoverAddress\<close> is called with
  the namespace of the service and, as its list of existing addresses, exactly the
  \<^verbatim>\<open>ipam-address\<close> label values of \<open>svcs\<close>, and the result of the reconciliation is
  computed from that call. In the trace of the run there is exactly one listing, of the
  namespace of the service with the selector \<^verbatim>\<open>implementation=kube-vip\<close>, and every
  call of package ipam carries that namespace and that list. Nothing is kept between
  runs: the model has no state but the collaborators'.
\<close>

theorem syncLoadBalancer_claims_from_listing:
  fixes env :: "('s, 'x) collaborators"
  assumes unbound: "Spec_LoadBalancerIP service = ''''"
    and listed: "svcList env (Namespace service) ''implementation=kube-vip'' (api w) = (Inr svcs, s1)"
    and config: "cmGet env (clientConfigName env) ''kube-system'' s1 = (Inr cm, s2)
                 \<or> (\<exists>e s. cmGet env (clientConfigName env) ''kube-system'' s1 = (Inl e, s)
                          \<and> cmCreate env (clientConfigName env) ''kube-system'' s = (Inr cm, s2))"
  defines "claimed \<equiv> map (\<lambda>s. index (Labels s) ''ipam-address'') svcs"
  shows "syncLoadBalancer env k service w =
           (case discoverAddress env cm (Namespace service) (cloudConfigMap k) claimed
                   \<lparr>api = s2, trace = trace w @ resolvingCalls env service s1\<rparr> of
              ((loadBalancerIP, err), w5) \<Rightarrow>
                if err \<noteq> None then ((None, err), w5)
                else
                  (case RetryOnConflict DefaultRetry (updateService env service loadBalancerIP) w5 of
                     (retryErr, w6) \<Rightarrow>
                       if retryErr \<noteq> None
                       then ((None, Some (Errorf (''error updating Service Spec [''
                               @ Name service @ ''] : '' @ fmt_v err))), w6)
                       else ((Some (Status_LoadBalancer service), None), w6)))
         \<and> filter isList (events w (snd (syncLoadBalancer env k service w)))
             = [ServicesList (Namespace service) ''implementation=kube-vip'']
         \<and> list_all (allocates (Namespace service) claimed)
              (filter isAllocation (events w (snd (syncLoadBalancer env k service w))))"
proof -
  let ?P = "\<lambda>c :: 'x Service_scheme call. \<not> isList c \<and> (isAllocation c \<longrightarrow> allocates (Namespace service) claimed c)"
  define w4 :: "('s, 'x) world" where "w4 = \<lparr>api = s2, trace = trace w @ resolvingCalls env service s1\<rparr>"
  define run where "run = discoverAddress env cm (Namespace service) (cloudConfigMap k) claimed w4"
  have claimed: "appendServiceIPS [] svcs = claimed"
    by (simp add: claimed_def appendServiceIPS_map)
  have sync: "syncLoadBalancer env k service w =
     (if snd (fst run) \<noteq> None then ((None, snd (fst run)), snd run)
      else
        (case RetryOnConflict DefaultRetry (updateService env service (fst (fst run))) (snd run) of
           (retryErr, w6) \<Rightarrow>
             if retryErr \<noteq> None
             then ((None, Some (Errorf (''error updating Service Spec [''
                     @ Name service @ ''] : '' @ fmt_v (snd (fst run))))), w6)
             else ((Some (Status_LoadBalancer service), None), w6)))"
    using syncLoadBalancer_unbound [OF unbound listed config, of k]
    by (simp add: run_def w4_def claimed split_def)
  have alloc: "emits ?P w4 (snd run)"
    unfolding run_def
    by (rule emits_mono [OF discoverAddress_emits]) (rule allocation_calls)
  have persist: "emits ?P u (snd (RetryOnConflict DefaultRetry (updateService env service ip) u))" for u ip
    by (rule RetryOnConflict_emits, rule emits_mono [OF updateService_emits])
       (use persistence_calls in blast)
  have rest: "emits ?P w4 (snd (syncLoadBalancer env k service w))"
    using alloc emits_trans [OF alloc persist [of "snd run" "fst (fst run)"]]
    by (simp add: sync split_def)
  then obtain new where new: "trace (snd (syncLoadBalancer env k service w)) = trace w4 @ new"
    and all: "list_all ?P new" by (auto simp: emits_iff)
  have ev: "events w (snd (syncLoadBalancer env k service w)) = resolvingCalls env service s1 @ new"
    by (rule events_append) (simp add: new w4_def)
  have pre1: "filter isList (resolvingCalls env service s1)
               = [ServicesList (Namespace service) ''implementation=kube-vip'']"
    by (simp add: resolvingCalls_def split: sum.splits)
  have pre2: "filter isAllocation (resolvingCalls env service s1) = []"
    by (simp add: resolvingCalls_def split: sum.splits)
  have new1: "filter isList new = []"
    using all by (auto simp: list_all_iff filter_empty_conv)
  have new2: "list_all (allocates (Namespace service) claimed) (filter isAllocation new)"
    using all by (auto simp: list_all_iff)
  have eq: "syncLoadBalancer env k service w =
           (case discoverAddress env cm (Namespace service) (cloudConfigMap k) claimed
                   \<lparr>api = s2, trace = trace w @ resolvingCalls env service s1\<rparr> of
              ((loadBalancerIP, err), w5) \<Rightarrow>
                if err \<noteq> None then ((None, err), w5)
                else
                  (case RetryOnConflict DefaultRetry (updateService env service loadBalancerIP) w5 of
                     (retryErr, w6) \<Rightarrow>
                       if retryErr \<noteq> None
                       then ((None, Some (Errorf (''error updating Service Spec [''
                               @ Name service @ ''] : '' @ fmt_v err))), w6)
                       else ((Some (Status_LoadBalancer service), None), w6)))"
    using syncLoadBalancer_unbound [OF unbound listed config, of k] by (simp only: claimed)
  have lists: "filter isList (events w (snd (syncLoadBalancer env k service w)))
                = [ServicesList (Namespace service) ''implementation=kube-vip'']"
    by (simp add: ev pre1 new1)
  have allocs: "list_all (allocates (Namespace service) claimed)
                  (filter isAllocation (events w (snd (syncLoadBalancer env k service w))))"
    by (simp add: ev pre2 new2)
  show ?thesis by (intro conjI eq lists allocs)
qed


theorem syncLoadBalancer_claims_from_listing_witness:
  "Spec_LoadBalancerIP web = ''''
   \<and> svcList (scripted 2 [db, orphan, db] pools) (Namespace web) ''implementation=kube-vip'' (api start)
       = (Inr [db, orphan, db], 0)
   \<and> cmGet (scripted 2 [db, orphan, db] pools) (clientConfigName (scripted 2 [db, orphan, db] pools))
       ''kube-system'' 0 = (Inr pools, 0)
   \<and> filter isList (events start (snd (syncLoadBalancer (scripted 2 [db, orphan, db] pools) manager web start)))
       = [ServicesList ''default'' ''implementation=kube-vip'']
   \<and> list_all (allocates ''default'' [''192.168.1.1'', '''', ''192.168.1.1''])
        (filter isAllocation
           (events start (snd (syncLoadBalancer (scripted 2 [db, orphan, db] pools) manager web start))))
   \<and> filter isAllocation
        (events start (snd (syncLoadBalancer (scripted 2 [db, orphan, db] pools) manager web start)))
       = [FindAvailableHostFromCidr ''default'' ''192.168.1.0/30'' [''192.168.1.1'', '''', ''192.168.1.1'']]"
proof -
  note claim = syncLoadBalancer_claims_from_listing
                 [OF web_unbound scripted_listed disjI1 [OF scripted_config],
                  of 2 "[db, orphan, db]" pools manager]
  have lists: "filter isList (events start (snd (syncLoadBalancer (scripted 2 [db, orphan, db] pools) manager web start)))
       = [ServicesList ''default'' ''implementation=kube-vip'']"
    using claim [THEN conjunct2, THEN conjunct1] by (simp add: web_def)
  have allocs: "list_all (allocates ''default'' [''192.168.1.1'', '''', ''192.168.1.1''])
        (filter isAllocation
           (events start (snd (syncLoadBalancer (scripted 2 [db, orphan, db] pools) manager web start))))"
    using claim [THEN conjunct2, THEN conjunct2] by (simp add: web_def db_def orphan_def index_def)
  show ?thesis
    using web_unbound scripted_listed [of 2 "[db, orphan, db]" pools]
      scripted_config [of 2 "[db, orphan, db]" pools] lists allocs run_two_conflicts
    by simp
qed

subsection \<open>The entries of the list of existing addresses\<close>

text \<open>
  C9. The loop over the listed services appends one entry per service, in the order of
  the listing: the value of its \<^verbatim>\<open>ipam-address\<close> label. A listed service that carries
  \<^verbatim>\<open>implementation=kube-vip\<close> and has no \<^verbatim>\<open>ipam-address\<close> label contributes the empty
  string at its position. Nothing is dropped or merged: the list is as long as the
  listing, so it can hold duplicates and empty entries.
\<close>

theorem existingServiceIPS_keeps_every_entry:
  assumes "i < length svcs"
    and "Labels (svcs ! i) = Some m"
    and "m ''implementation'' = Some ''kube-vip''"
    and "m ''ipam-address'' = None"
  shows "appendServiceIPS [] svcs ! i = ''''
         \<and> length (appendServiceIPS [] svcs) = length svcs
         \<and> appendServiceIPS [] svcs = map (\<lambda>s. index (Labels s) ''ipam-address'') svcs"
  using assms by (simp add: appendServiceIPS_map index_def)

theorem existingServiceIPS_keeps_every_entry_witness:
  "(1::nat) < length [db, orphan, db]
   \<and> Labels ([db, orphan, db] ! 1) = Some [''implementation'' \<mapsto> ''kube-vip'']
   \<and> [''implementation'' \<mapsto> ''kube-vip''] ''implementation'' = Some ''kube-vip''
   \<and> [''implementation'' \<mapsto> ''kube-vip''] ''ipam-address'' = None
   \<and> appendServiceIPS [] [db, orphan, db] ! 1 = ''''
   \<and> length (appendServiceIPS [] [db, orphan, db]) = 3
   \<and> appendServiceIPS [] [db, orphan, db] = [''192.168.1.1'', '''', ''192.168.1.1'']
   \<and> filter isAllocation
        (events start (snd (syncLoadBalancer (scripted 2 [db, orphan, db] pools) manager web start)))
       = [FindAvailableHostFromCidr ''default'' ''192.168.1.0/30'' [''192.168.1.1'', '''', ''192.168.1.1'']]"
  using existingServiceIPS_keeps_every_entry
          [of 1 "[db, orphan, db]" "[''implementation'' \<mapsto> ''kube-vip'']"]
    run_two_conflicts
  by (simp add: db_def orphan_def index_def)

subsection \<open>The retry loop\<close>

lemma after_0: "after 0 fn w = w"
  by (simp add: after_def)

lemma after_Suc: "after (Suc i) fn w = snd (fn (after i fn w))"
  by (simp add: after_def)

lemma after_Suc_shift: "after (Suc i) fn w = after i fn (snd (fn w))"
  using funpow_swap1 [of "\<lambda>u. snd (fn u)" i w] by (simp add: after_def)

lemma retryLoop_attempts:
  assumes "0 < n"
  shows "\<exists>i<n. (\<forall>j<i. \<exists>e. fst (fn (after j fn w)) = Some e \<and> IsConflict e)
           \<and> snd (retryLoop n fn lastErr w) = after (Suc i) fn w
           \<and> (case fst (fn (after i fn w)) of
                 None \<Rightarrow> fst (retryLoop n fn lastErr w) = None
               | Some e \<Rightarrow> (IsConflict e \<longrightarrow> Suc i = n) \<and> fst (retryLoop n fn lastErr w) = Some e)"
  using assms
proof (induction n arbitrary: w lastErr)
  case 0
  then show ?case by simp
next
  case (Suc n)
  obtain r w' where run: "fn w = (r, w')" by (cases "fn w")
  show ?case
  proof (cases r)
    case None
    with run show ?thesis
      by (intro exI [of _ 0]) (simp add: after_0 after_Suc)
  next
    case (Some e)
    show ?thesis
    proof (cases "IsConflict e \<and> 0 < n")
      case False
      with run Some show ?thesis
        by (intro exI [of _ 0]) (auto simp: after_0 after_Suc)
    next
      case True
      from Suc.IH [of w' "Some e"] True obtain i where i: "i < n"
        and before: "\<forall>j<i. \<exists>e. fst (fn (after j fn w')) = Some e \<and> IsConflict e"
        and world: "snd (retryLoop n fn (Some e) w') = after (Suc i) fn w'"
        and last: "case fst (fn (after i fn w')) of
                     None \<Rightarrow> fst (retryLoop n fn (Some e) w') = None
                   | Some e' \<Rightarrow> (IsConflict e' \<longrightarrow> Suc i = n) \<and> fst (retryLoop n fn (Some e) w') = Some e'"
        by blast
      have shift: "after (Suc j) fn w = after j fn w'" for j
        using run by (simp add: after_Suc_shift)
      have loop: "retryLoop (Suc n) fn lastErr w = retryLoop n fn (Some e) w'"
        using run Some True by simp
      have "\<forall>j<Suc i. \<exists>e. fst (fn (after j fn w)) = Some e \<and> IsConflict e"
      proof (intro allI impI)
        fix j assume "j < Suc i"
        show "\<exists>e. fst (fn (after j fn w)) = Some e \<and> IsConflict e"
        proof (cases j)
          case 0
          with run Some True show ?thesis by (simp add: after_0)
        next
          case (Suc j')
          with \<open>j < Suc i\<close> before show ?thesis by (simp add: shift)
        qed
      qed
      moreover have "snd (retryLoop (Suc n) fn lastErr w) = after (Suc (Suc i)) fn w"
        using world by (simp only: loop shift)
      moreover have "case fst (fn (after (Suc i) fn w)) of
                       None \<Rightarrow> fst (retryLoop (Suc n) fn lastErr w) = None
                     | Some e' \<Rightarrow> (IsConflict e' \<longrightarrow> Suc (Suc i) = Suc n)
                                  \<and> fst (retryLoop (Suc n) fn lastErr w) = Some e'"
        using last by (simp only: loop shift) (simp split: option.splits)
      ultimately show ?thesis
        using i by (intro exI [of _ "Suc i"]) simp
    qed
  qed
qed


lemma updateService_run:
  "(case svcGet env (Namespace service) (Name service) (api u) of
      (Inl getErr, s) \<Rightarrow>
        updateService env service ip u
          = (Some getErr, \<lparr>api = s, trace = trace u @ [ServicesGet (Namespace service) (Name service)]\<rparr>)
    | (Inr recent, s) \<Rightarrow>
        (let obj = recent\<lparr>Labels := Some ((case Labels recent of None \<Rightarrow> Map.empty | Some m \<Rightarrow> m)
                                           (''implementation'' \<mapsto> ''kube-vip'', ''ipam-address'' \<mapsto> ip)),
                          Spec_LoadBalancerIP := ip\<rparr>
         in case svcUpdate env (Namespace recent) obj s of
              (r, s') \<Rightarrow>
                updateService env service ip u
                  = ((case r of Inl updateErr \<Rightarrow> Some updateErr | Inr _ \<Rightarrow> None),
                     \<lparr>api = s',
                        trace = trace u @ [ServicesGet (Namespace service) (Name service),
                                           Klog InfoLevel (''Updating service ['' @ Name service
                                             @ ''], with load balancer IPAM address ['' @ ip @ '']''),
                                           ServicesUpdate (Namespace recent) obj]\<rparr>)))"
  by (simp add: updateService_def run_defs Let_def split: prod.splits sum.splits)

subsection \<open>What one update writes\<close>

text \<open>
  C6. When the read of the target service answers \<open>recent\<close>, one run of the update
  function makes three calls: that read, a log line, and one update, in the namespace
  of \<open>recent\<close>, of the object \<open>obj\<close>. The object is \<open>recent\<close> with the label
  \<^verbatim>\<open>implementation\<close> set to \<^verbatim>\<open>kube-vip\<close>, the label \<^verbatim>\<open>ipam-address\<close> and the field
  \<^verbatim>\<open>Spec.LoadBalancerIP\<close> set to the allocated address; its label map is not nil; every
  other label and every other field, the ones this model does not name included, is
  the one of \<open>recent\<close>. The function returns the error of that update.
\<close>

theorem updateService_write_frame:
  fixes env :: "('s, 'x) collaborators" and recent :: "'x Service_scheme" and ip :: string
  assumes read: "svcGet env (Namespace service) (Name service) (api u) = (Inr recent, s)"
  defines "obj \<equiv> recent\<lparr>Labels := Some ((case Labels recent of None \<Rightarrow> Map.empty | Some m \<Rightarrow> m)
                                         (''implementation'' \<mapsto> ''kube-vip'', ''ipam-address'' \<mapsto> ip)),
                        Spec_LoadBalancerIP := ip\<rparr>"
  shows "events u (snd (updateService env service ip u))
           = [ServicesGet (Namespace service) (Name service),
              Klog InfoLevel (''Updating service ['' @ Name service
                              @ ''], with load balancer IPAM address ['' @ ip @ '']''),
              ServicesUpdate (Namespace recent) obj]
         \<and> index (Labels obj) ''implementation'' = ''kube-vip''
         \<and> index (Labels obj) ''ipam-address'' = ip
         \<and> Spec_LoadBalancerIP obj = ip
         \<and> (\<forall>key. key \<noteq> ''implementation'' \<and> key \<noteq> ''ipam-address''
                \<longrightarrow> index (Labels obj) key = index (Labels recent) key)
         \<and> Labels obj \<noteq> None
         \<and> Name obj = Name recent \<and> Namespace obj = Namespace recent \<and> UID obj = UID recent
         \<and> Status_LoadBalancer obj = Status_LoadBalancer recent
         \<and> Service.more obj = Service.more recent
         \<and> fst (updateService env service ip u)
             = (case fst (svcUpdate env (Namespace recent) obj s) of
                  Inl updateErr \<Rightarrow> Some updateErr | Inr _ \<Rightarrow> None)"
proof -
  obtain r s' where upd: "svcUpdate env (Namespace recent) obj s = (r, s')"
    by (cases "svcUpdate env (Namespace recent) obj s")
  have run: "updateService env service ip u
     = ((case r of Inl updateErr \<Rightarrow> Some updateErr | Inr _ \<Rightarrow> None),
        \<lparr>api = s',
           trace = trace u @ [ServicesGet (Namespace service) (Name service),
                              Klog InfoLevel (''Updating service ['' @ Name service
                                @ ''], with load balancer IPAM address ['' @ ip @ '']''),
                              ServicesUpdate (Namespace recent) obj]\<rparr>)"
    using updateService_run [where env = env and service = service and u = u and ip = ip] read upd by (simp add: obj_def)
  have ev: "events u (snd (updateService env service ip u))
           = [ServicesGet (Namespace service) (Name service),
              Klog InfoLevel (''Updating service ['' @ Name service
                              @ ''], with load balancer IPAM address ['' @ ip @ '']''),
              ServicesUpdate (Namespace recent) obj]"
    by (rule events_append) (simp add: run)
  have res: "fst (updateService env service ip u)
             = (case fst (svcUpdate env (Namespace recent) obj s) of
                  Inl updateErr \<Rightarrow> Some updateErr | Inr _ \<Rightarrow> None)"
    by (simp add: run upd)
  have fields: "index (Labels obj) ''implementation'' = ''kube-vip''
         \<and> index (Labels obj) ''ipam-address'' = ip
         \<and> Spec_LoadBalancerIP obj = ip
         \<and> (\<forall>key. key \<noteq> ''implementation'' \<and> key \<noteq> ''ipam-address''
                \<longrightarrow> index (Labels obj) key = index (Labels recent) key)
         \<and> Labels obj \<noteq> None
         \<and> Name obj = Name recent \<and> Namespace obj = Namespace recent \<and> UID obj = UID recent
         \<and> Status_LoadBalancer obj = Status_LoadBalancer recent
         \<and> Service.more obj = Service.more recent"
    by (simp add: obj_def index_def split: option.splits)
  show ?thesis using ev res fields by simp
qed


theorem updateService_write_frame_witness:
  "svcGet (scripted 2 [db] pools) (Namespace web) (Name web) (api start) = (Inr web, 0)
   \<and> events start (snd (updateService (scripted 2 [db] pools) web ''192.168.1.2'' start))
       = [ServicesGet ''default'' ''web'',
          Klog InfoLevel ''Updating service [web], with load balancer IPAM address [192.168.1.2]'',
          ServicesUpdate ''default''
            \<lparr>Name = ''web'', Namespace = ''default'', UID = ''u-1'',
             Labels = Some [''implementation'' \<mapsto> ''kube-vip'', ''ipam-address'' \<mapsto> ''192.168.1.2''],
             Spec_LoadBalancerIP = ''192.168.1.2'', Status_LoadBalancer = \<lparr>Ingress = []\<rparr>\<rparr>]
   \<and> fst (updateService (scripted 2 [db] pools) web ''192.168.1.2'' start)
       = Some (StatusError StatusReasonConflict ''object has been modified'')"
proof -
  have read: "svcGet (scripted 2 [db] pools) (Namespace web) (Name web) (api start) = (Inr web, 0)"
    by (simp add: scripted_def start_def)
  show ?thesis
    using updateService_write_frame [OF read, of "''192.168.1.2''"] read
    by (simp add: web_def scripted_def)
qed

subsection \<open>The calls of a reconciliation\<close>

lemma isInfo_log: "isInfo c \<Longrightarrow> \<exists>m. c = Klog InfoLevel m"
  by (cases c) simp_all

lemma syncLoadBalancer_resolved_emits:
  fixes env :: "('s, 'x) collaborators" and P :: "'x Service_scheme call \<Rightarrow> bool"
  assumes unbound: "Spec_LoadBalancerIP service = ''''"
    and listed: "svcList env (Namespace service) ''implementation=kube-vip'' (api w) = (Inr svcs, s1)"
    and config: "cmGet env (clientConfigName env) ''kube-system'' s1 = (Inr cm, s2)
                 \<or> (\<exists>e s. cmGet env (clientConfigName env) ''kube-system'' s1 = (Inl e, s)
                          \<and> cmCreate env (clientConfigName env) ''kube-system'' s = (Inr cm, s2))"
    and log: "\<And>l m. P (Klog l m)"
    and list: "P (ServicesList (Namespace service) ''implementation=kube-vip'')"
    and getcm: "P (GetConfigMap (clientConfigName env) ''kube-system'')"
    and createcm: "P (CreateConfigMap (clientConfigName env) ''kube-system'')"
    and alloc: "\<And>c ex. allocates (Namespace service) ex c \<Longrightarrow> P c"
    and get: "P (ServicesGet (Namespace service) (Name service))"
    and upd: "\<And>c ip. binds ip c \<Longrightarrow> P c"
  shows "emits P w (snd (syncLoadBalancer env k service w))"
proof -
  define w4 :: "('s, 'x) world" where "w4 = \<lparr>api = s2, trace = trace w @ resolvingCalls env service s1\<rparr>"
  define run where "run = discoverAddress env cm (Namespace service) (cloudConfigMap k)
                            (appendServiceIPS [] svcs) w4"
  have pre: "emits P w w4"
    by (simp add: emits_iff w4_def resolvingCalls_def log list getcm createcm split: sum.splits)
  have allocP: "emits P w4 (snd run)"
    unfolding run_def
    by (rule emits_mono [OF discoverAddress_emits]) (use log alloc isInfo_log in blast)
  have persist: "emits P u (snd (RetryOnConflict DefaultRetry (updateService env service ip) u))" for u ip
    by (rule RetryOnConflict_emits, rule emits_mono [OF updateService_emits])
       (use log get upd isInfo_log in blast)
  have "emits P w4 (snd (syncLoadBalancer env k service w))"
    using allocP emits_trans [OF allocP persist [of "snd run" "fst (fst run)"]]
      syncLoadBalancer_unbound [OF unbound listed config, of k]
    by (simp add: run_def w4_def split_def)
  with pre show ?thesis by (rule emits_trans)
qed

lemma syncLoadBalancer_emits:
  fixes env :: "('s, 'x) collaborators" and P :: "'x Service_scheme call \<Rightarrow> bool"
  assumes log: "\<And>l m. P (Klog l m)"
    and list: "P (ServicesList (Namespace service) ''implementation=kube-vip'')"
    and getcm: "P (GetConfigMap (clientConfigName env) ''kube-system'')"
    and createcm: "P (CreateConfigMap (clientConfigName env) ''kube-system'')"
    and alloc: "\<And>c ex. allocates (Namespace service) ex c \<Longrightarrow> P c"
    and get: "P (ServicesGet (Namespace service) (Name service))"
    and upd: "\<And>c ip. binds ip c \<Longrightarrow> P c"
  shows "emits P w (snd (syncLoadBalancer env k service w))"
proof (cases "Spec_LoadBalancerIP service = ''''")
  case False
  then show ?thesis
    by (simp add: syncLoadBalancer_def run_defs emits_iff log)
next
  case unbound: True
  obtain r1 s1 where l: "svcList env (Namespace service) ''implementation=kube-vip'' (api w) = (r1, s1)"
    by (cases "svcList env (Namespace service) ''implementation=kube-vip'' (api w)")
  obtain r2 s2 where g: "cmGet env (clientConfigName env) ''kube-system'' s1 = (r2, s2)"
    by (cases "cmGet env (clientConfigName env) ''kube-system'' s1")
  obtain r3 s3 where c: "cmCreate env (clientConfigName env) ''kube-system'' s2 = (r3, s3)"
    by (cases "cmCreate env (clientConfigName env) ''kube-system'' s2")
  show ?thesis
  proof (cases r1)
    case (Inl e)
    with unbound l show ?thesis
      by (simp add: syncLoadBalancer_def run_defs emits_iff log list)
  next
    case listed: (Inr svcs)
    with l have answer: "svcList env (Namespace service) ''implementation=kube-vip'' (api w) = (Inr svcs, s1)"
      by simp
    show ?thesis
    proof (cases r2)
      case (Inr cm)
      with g have config: "cmGet env (clientConfigName env) ''kube-system'' s1 = (Inr cm, s2)
                 \<or> (\<exists>e s. cmGet env (clientConfigName env) ''kube-system'' s1 = (Inl e, s)
                          \<and> cmCreate env (clientConfigName env) ''kube-system'' s = (Inr cm, s2))"
        by simp
      show ?thesis
        by (rule syncLoadBalancer_resolved_emits
                   [OF unbound answer config log list getcm createcm alloc get upd])
    next
      case getfail: (Inl e)
      show ?thesis
      proof (cases r3)
        case (Inl e')
        with unbound l listed g getfail c show ?thesis
          by (simp add: syncLoadBalancer_def run_defs emits_iff log list getcm createcm)
      next
        case (Inr cm)
        with g getfail c have config: "cmGet env (clientConfigName env) ''kube-system'' s1 = (Inr cm, s3)
                 \<or> (\<exists>e s. cmGet env (clientConfigName env) ''kube-system'' s1 = (Inl e, s)
                          \<and> cmCreate env (clientConfigName env) ''kube-system'' s = (Inr cm, s3))"
          by simp
        show ?thesis
          by (rule syncLoadBalancer_resolved_emits
                     [OF unbound answer config log list getcm createcm alloc get upd])
      qed
    qed
  qed
qed

subsection \<open>Persistence\<close>

lemma syncLoadBalancer_allocated:
  fixes env :: "('s, 'x) collaborators"
  assumes unbound: "Spec_LoadBalancerIP service = ''''"
    and listed: "svcList env (Namespace service) ''implementation=kube-vip'' (api w) = (Inr svcs, s1)"
    and config: "cmGet env (clientConfigName env) ''kube-system'' s1 = (Inr cm, s2)
                 \<or> (\<exists>e s. cmGet env (clientConfigName env) ''kube-system'' s1 = (Inl e, s)
                          \<and> cmCreate env (clientConfigName env) ''kube-system'' s = (Inr cm, s2))"
    and allocated: "fst (discoverAddress env cm (Namespace service) (cloudConfigMap k)
                           (appendServiceIPS [] svcs)
                           \<lparr>api = s2, trace = trace w @ resolvingCalls env service s1\<rparr>) = (vip, None)"
  defines "w5 \<equiv> snd (discoverAddress env cm (Namespace service) (cloudConfigMap k)
                        (appendServiceIPS [] svcs)
                        \<lparr>api = s2, trace = trace w @ resolvingCalls env service s1\<rparr>)"
  shows "syncLoadBalancer env k service w =
           (case RetryOnConflict DefaultRetry (updateService env service vip) w5 of
              (retryErr, w6) \<Rightarrow>
                if retryErr \<noteq> None
                then ((None, Some (Errorf (''error updating Service Spec [''
                        @ Name service @ ''] : '' @ fmt_v None))), w6)
                else ((Some (Status_LoadBalancer service), None), w6))"
  using syncLoadBalancer_unbound [OF unbound listed config, of k] allocated
  by (simp add: w5_def split_def)

text \<open>
  C5. Take an unbound service for which listing, configuration and allocation succeed,
  with the address \<open>vip\<close>. The update function is then run under the default retry
  policy, starting in the world \<open>w5\<close> that allocation left. There is an attempt
  \<open>i\<close> within the budget of the policy such that all attempts before it ended with a
  conflict error, the reconciliation ends in the world after attempt \<open>i\<close>, and: if
  attempt \<open>i\<close> returned nil, the result is the status of the service with a nil error;
  otherwise the result is a nil status with a non-nil error, and attempt \<open>i\<close> either
  returned an error that is not a conflict or was the last one of the budget. Every
  attempt first reads the target service by namespace and name; if the read fails it
  returns that error and makes no other call;
  otherwise it logs and sends one update, in the namespace of the object just read, of
  that object with the ownership label, the address label and the address field set
  (and nothing else changed), and returns the error of that update; the collaborator
  state it leaves is the one the update left. So what is written back is the version
  that the attempt has just read, not the service the reconciliation was called with.
\<close>

theorem syncLoadBalancer_persistence_loop:
  fixes env :: "('s, 'x) collaborators"
  assumes unbound: "Spec_LoadBalancerIP service = ''''"
    and listed: "svcList env (Namespace service) ''implementation=kube-vip'' (api w) = (Inr svcs, s1)"
    and config: "cmGet env (clientConfigName env) ''kube-system'' s1 = (Inr cm, s2)
                 \<or> (\<exists>e s. cmGet env (clientConfigName env) ''kube-system'' s1 = (Inl e, s)
                          \<and> cmCreate env (clientConfigName env) ''kube-system'' s = (Inr cm, s2))"
    and allocated: "fst (discoverAddress env cm (Namespace service) (cloudConfigMap k)
                           (appendServiceIPS [] svcs)
                           \<lparr>api = s2, trace = trace w @ resolvingCalls env service s1\<rparr>) = (vip, None)"
  defines "w5 \<equiv> snd (discoverAddress env cm (Namespace service) (cloudConfigMap k)
                        (appendServiceIPS [] svcs)
                        \<lparr>api = s2, trace = trace w @ resolvingCalls env service s1\<rparr>)"
    and "attempt \<equiv> updateService env service vip"
  shows "(\<exists>i<Steps DefaultRetry. (\<forall>j<i. \<exists>e. fst (attempt (after j attempt w5)) = Some e \<and> IsConflict e)
            \<and> snd (syncLoadBalancer env k service w) = after (Suc i) attempt w5
            \<and> (case fst (attempt (after i attempt w5)) of
                  None \<Rightarrow> fst (syncLoadBalancer env k service w) = (Some (Status_LoadBalancer service), None)
                | Some e \<Rightarrow> (IsConflict e \<longrightarrow> Suc i = Steps DefaultRetry)
                            \<and> fst (fst (syncLoadBalancer env k service w)) = None
                            \<and> snd (fst (syncLoadBalancer env k service w)) \<noteq> None))
         \<and> (\<forall>u. case svcGet env (Namespace service) (Name service) (api u) of
                 (Inl getErr, s) \<Rightarrow>
                   fst (attempt u) = Some getErr
                   \<and> events u (snd (attempt u)) = [ServicesGet (Namespace service) (Name service)]
                   \<and> api (snd (attempt u)) = s
               | (Inr recent, s) \<Rightarrow>
                   (let obj = recent\<lparr>Labels := Some ((case Labels recent of None \<Rightarrow> Map.empty
                                                        | Some m \<Rightarrow> m)
                                                       (''implementation'' \<mapsto> ''kube-vip'',
                                                        ''ipam-address'' \<mapsto> vip)),
                                      Spec_LoadBalancerIP := vip\<rparr>
                    in binds vip (ServicesUpdate (Namespace recent) obj)
                      \<and> events u (snd (attempt u))
                          = [ServicesGet (Namespace service) (Name service),
                             Klog InfoLevel (''Updating service ['' @ Name service
                               @ ''], with load balancer IPAM address ['' @ vip @ '']''),
                             ServicesUpdate (Namespace recent) obj]
                      \<and> fst (attempt u)
                          = (case fst (svcUpdate env (Namespace recent) obj s) of
                               Inl updateErr \<Rightarrow> Some updateErr | Inr _ \<Rightarrow> None)
                      \<and> api (snd (attempt u)) = snd (svcUpdate env (Namespace recent) obj s)))"
proof (intro conjI allI)
  have steps: "Steps DefaultRetry = 5"
    by (simp add: DefaultRetry_def)
  have sync: "syncLoadBalancer env k service w =
           (case retryLoop 5 attempt None w5 of
              (retryErr, w6) \<Rightarrow>
                if retryErr \<noteq> None
                then ((None, Some (Errorf (''error updating Service Spec [''
                        @ Name service @ ''] : '' @ fmt_v None))), w6)
                else ((Some (Status_LoadBalancer service), None), w6))"
    using syncLoadBalancer_allocated [OF unbound listed config allocated]
    by (simp add: w5_def attempt_def RetryOnConflict_def DefaultRetry_def)
  obtain i where i: "i < 5"
    and before: "\<forall>j<i. \<exists>e. fst (attempt (after j attempt w5)) = Some e \<and> IsConflict e"
    and world: "snd (retryLoop 5 attempt None w5) = after (Suc i) attempt w5"
    and last: "case fst (attempt (after i attempt w5)) of
                 None \<Rightarrow> fst (retryLoop 5 attempt None w5) = None
               | Some e \<Rightarrow> (IsConflict e \<longrightarrow> Suc i = 5) \<and> fst (retryLoop 5 attempt None w5) = Some e"
    using retryLoop_attempts [of 5 attempt w5 None] by auto
  have "snd (syncLoadBalancer env k service w) = after (Suc i) attempt w5"
    using world by (simp add: sync split_def)
  moreover have "case fst (attempt (after i attempt w5)) of
                  None \<Rightarrow> fst (syncLoadBalancer env k service w) = (Some (Status_LoadBalancer service), None)
                | Some e \<Rightarrow> (IsConflict e \<longrightarrow> Suc i = Steps DefaultRetry)
                            \<and> fst (fst (syncLoadBalancer env k service w)) = None
                            \<and> snd (fst (syncLoadBalancer env k service w)) \<noteq> None"
    using last by (simp add: sync split_def steps split: option.splits)
  ultimately show "\<exists>i<Steps DefaultRetry. (\<forall>j<i. \<exists>e. fst (attempt (after j attempt w5)) = Some e \<and> IsConflict e)
            \<and> snd (syncLoadBalancer env k service w) = after (Suc i) attempt w5
            \<and> (case fst (attempt (after i attempt w5)) of
                  None \<Rightarrow> fst (syncLoadBalancer env k service w) = (Some (Status_LoadBalancer service), None)
                | Some e \<Rightarrow> (IsConflict e \<longrightarrow> Suc i = Steps DefaultRetry)
                            \<and> fst (fst (syncLoadBalancer env k service w)) = None
                            \<and> snd (fst (syncLoadBalancer env k service w)) \<noteq> None)"
    using i before unfolding steps by blast
next
  fix u :: "('s, 'x) world"
  show "case svcGet env (Namespace service) (Name service) (api u) of
                 (Inl getErr, s) \<Rightarrow>
                   fst (attempt u) = Some getErr
                   \<and> events u (snd (attempt u)) = [ServicesGet (Namespace service) (Name service)]
                   \<and> api (snd (attempt u)) = s
               | (Inr recent, s) \<Rightarrow>
                   (let obj = recent\<lparr>Labels := Some ((case Labels recent of None \<Rightarrow> Map.empty
                                                        | Some m \<Rightarrow> m)
                                                       (''implementation'' \<mapsto> ''kube-vip'',
                                                        ''ipam-address'' \<mapsto> vip)),
                                      Spec_LoadBalancerIP := vip\<rparr>
                    in binds vip (ServicesUpdate (Namespace recent) obj)
                      \<and> events u (snd (attempt u))
                          = [ServicesGet (Namespace service) (Name service),
                             Klog InfoLevel (''Updating service ['' @ Name service
                               @ ''], with load balancer IPAM address ['' @ vip @ '']''),
                             ServicesUpdate (Namespace recent) obj]
                      \<and> fst (attempt u)
                          = (case fst (svcUpdate env (Namespace recent) obj s) of
                               Inl updateErr \<Rightarrow> Some updateErr | Inr _ \<Rightarrow> None)
                      \<and> api (snd (attempt u)) = snd (svcUpdate env (Namespace recent) obj s))"
  proof -
    obtain r s where read: "svcGet env (Namespace service) (Name service) (api u) = (r, s)"
      by (cases "svcGet env (Namespace service) (Name service) (api u)")
    show ?thesis
    proof (cases r)
      case (Inl getErr)
      then show ?thesis
        using updateService_run [where env = env and service = service and u = u and ip = vip] read
        by (simp add: attempt_def events_def)
    next
      case (Inr recent)
      define obj where "obj = recent\<lparr>Labels := Some ((case Labels recent of None \<Rightarrow> Map.empty | Some m \<Rightarrow> m)
                                           (''implementation'' \<mapsto> ''kube-vip'', ''ipam-address'' \<mapsto> vip)),
                          Spec_LoadBalancerIP := vip\<rparr>"
      obtain r' s' where upd: "svcUpdate env (Namespace recent) obj s = (r', s')"
        by (cases "svcUpdate env (Namespace recent) obj s")
      have run: "attempt u
         = ((case r' of Inl updateErr \<Rightarrow> Some updateErr | Inr _ \<Rightarrow> None),
            \<lparr>api = s',
               trace = trace u @ [ServicesGet (Namespace service) (Name service),
                                  Klog InfoLevel (''Updating service ['' @ Name service
                                    @ ''], with load balancer IPAM address ['' @ vip @ '']''),
                                  ServicesUpdate (Namespace recent) obj]\<rparr>)"
        using updateService_run [where env = env and service = service and u = u and ip = vip]
          read Inr upd
        by (simp add: attempt_def obj_def)
      have "binds vip (ServicesUpdate (Namespace recent) obj)"
        by (simp add: obj_def index_def)
      moreover have "events u (snd (attempt u))
                          = [ServicesGet (Namespace service) (Name service),
                             Klog InfoLevel (''Updating service ['' @ Name service
                               @ ''], with load balancer IPAM address ['' @ vip @ '']''),
                             ServicesUpdate (Namespace recent) obj]"
        by (rule events_append) (simp add: run)
      moreover have "fst (attempt u)
                          = (case fst (svcUpdate env (Namespace recent) obj s) of
                               Inl updateErr \<Rightarrow> Some updateErr | Inr _ \<Rightarrow> None)"
        by (simp add: run upd)
      moreover have "api (snd (attempt u)) = snd (svcUpdate env (Namespace recent) obj s)"
        by (simp add: run upd)
      ultimately show ?thesis
        using read Inr by (simp add: Let_def flip: obj_def)
    qed
  qed
qed

theorem syncLoadBalancer_persistence_loop_witness:
  "Steps DefaultRetry = 5
   \<and> Spec_LoadBalancerIP web = ''''
   \<and> svcList (scripted 2 [db, orphan, db] pools) (Namespace web) ''implementation=kube-vip'' (api start)
       = (Inr [db, orphan, db], 0)
   \<and> cmGet (scripted 2 [db, orphan, db] pools) (clientConfigName (scripted 2 [db, orphan, db] pools))
       ''kube-system'' 0 = (Inr pools, 0)
   \<and> fst (discoverAddress (scripted 2 [db, orphan, db] pools) pools (Namespace web) (cloudConfigMap manager)
            (appendServiceIPS [] [db, orphan, db])
            \<lparr>api = 0, trace = trace start @ resolvingCalls (scripted 2 [db, orphan, db] pools) web 0\<rparr>)
       = (''192.168.1.2'', None)
   \<and> (\<exists>i<Steps DefaultRetry. (\<forall>j<i. \<exists>e.
               fst (updateService (scripted 2 [db, orphan, db] pools) web ''192.168.1.2''
                      (after j (updateService (scripted 2 [db, orphan, db] pools) web ''192.168.1.2'')
                         (snd (discoverAddress (scripted 2 [db, orphan, db] pools) pools (Namespace web)
                                 (cloudConfigMap manager) (appendServiceIPS [] [db, orphan, db])
                                 \<lparr>api = 0, trace = trace start
                                     @ resolvingCalls (scripted 2 [db, orphan, db] pools) web 0\<rparr>))))
                 = Some e \<and> IsConflict e)
          \<and> snd (syncLoadBalancer (scripted 2 [db, orphan, db] pools) manager web start)
              = after (Suc i) (updateService (scripted 2 [db, orphan, db] pools) web ''192.168.1.2'')
                  (snd (discoverAddress (scripted 2 [db, orphan, db] pools) pools (Namespace web)
                          (cloudConfigMap manager) (appendServiceIPS [] [db, orphan, db])
                          \<lparr>api = 0, trace = trace start
                              @ resolvingCalls (scripted 2 [db, orphan, db] pools) web 0\<rparr>)))
   \<and> fst (syncLoadBalancer (scripted 2 [db, orphan, db] pools) manager web start) = (Some \<lparr>Ingress = []\<rparr>, None)
   \<and> api (snd (syncLoadBalancer (scripted 2 [db, orphan, db] pools) manager web start)) = 3
   \<and> events start (snd (updateService (scripted 2 [db, orphan, db] pools) web ''192.168.1.2'' start))
       = [ServicesGet ''default'' ''web'',
          Klog InfoLevel ''Updating service [web], with load balancer IPAM address [192.168.1.2]'',
          ServicesUpdate ''default''
            \<lparr>Name = ''web'', Namespace = ''default'', UID = ''u-1'',
             Labels = Some [''implementation'' \<mapsto> ''kube-vip'', ''ipam-address'' \<mapsto> ''192.168.1.2''],
             Spec_LoadBalancerIP = ''192.168.1.2'', Status_LoadBalancer = \<lparr>Ingress = []\<rparr>\<rparr>]
   \<and> filter isWrite (events start (snd (syncLoadBalancer (scripted 2 [db, orphan, db] pools) manager web start)))
       = replicate 3 (ServicesUpdate ''default''
            \<lparr>Name = ''web'', Namespace = ''default'', UID = ''u-1'',
             Labels = Some [''implementation'' \<mapsto> ''kube-vip'', ''ipam-address'' \<mapsto> ''192.168.1.2''],
             Spec_LoadBalancerIP = ''192.168.1.2'', Status_LoadBalancer = \<lparr>Ingress = []\<rparr>\<rparr>)"
proof -
  note claim = syncLoadBalancer_persistence_loop
                 [OF web_unbound scripted_listed [of 2] disjI1 [OF scripted_config [of 2]]
                     scripted_allocation [of 2], THEN conjunct1]
  have attempts: "\<exists>i<Steps DefaultRetry. (\<forall>j<i. \<exists>e.
               fst (updateService (scripted 2 [db, orphan, db] pools) web ''192.168.1.2''
                      (after j (updateService (scripted 2 [db, orphan, db] pools) web ''192.168.1.2'')
                         (snd (discoverAddress (scripted 2 [db, orphan, db] pools) pools (Namespace web)
                                 (cloudConfigMap manager) (appendServiceIPS [] [db, orphan, db])
                                 \<lparr>api = 0, trace = trace start
                                     @ resolvingCalls (scripted 2 [db, orphan, db] pools) web 0\<rparr>))))
                 = Some e \<and> IsConflict e)
          \<and> snd (syncLoadBalancer (scripted 2 [db, orphan, db] pools) manager web start)
              = after (Suc i) (updateService (scripted 2 [db, orphan, db] pools) web ''192.168.1.2'')
                  (snd (discoverAddress (scripted 2 [db, orphan, db] pools) pools (Namespace web)
                          (cloudConfigMap manager) (appendServiceIPS [] [db, orphan, db])
                          \<lparr>api = 0, trace = trace start
                              @ resolvingCalls (scripted 2 [db, orphan, db] pools) web 0\<rparr>))"
    using claim by blast
  have steps: "Steps DefaultRetry = 5"
    by (simp add: DefaultRetry_def)
  have pinned: "events start (snd (updateService (scripted 2 [db, orphan, db] pools) web ''192.168.1.2'' start))
       = [ServicesGet ''default'' ''web'',
          Klog InfoLevel ''Updating service [web], with load balancer IPAM address [192.168.1.2]'',
          ServicesUpdate ''default''
            \<lparr>Name = ''web'', Namespace = ''default'', UID = ''u-1'',
             Labels = Some [''implementation'' \<mapsto> ''kube-vip'', ''ipam-address'' \<mapsto> ''192.168.1.2''],
             Spec_LoadBalancerIP = ''192.168.1.2'', Status_LoadBalancer = \<lparr>Ingress = []\<rparr>\<rparr>]"
    using syncLoadBalancer_persistence_loop
            [OF web_unbound scripted_listed [of 2] disjI1 [OF scripted_config [of 2]]
                scripted_allocation [of 2], THEN conjunct2, THEN spec [of _ start]]
    by (simp add: scripted_def web_def start_def Let_def)
  show ?thesis
    using steps web_unbound scripted_listed [of 2 "[db, orphan, db]" pools]
      scripted_config [of 2 "[db, orphan, db]" pools] scripted_allocation [of 2]
      attempts run_two_conflicts run_written pinned
    by (intro conjI) simp_all
qed

text \<open>
  C10. Take an unbound service for which the listing succeeds and the configuration
  document is obtained; let \<open>allocErr\<close> be the error variable that \<open>discoverAddress\<close>
  leaves, and suppose the retry loop, started where \<open>discoverAddress\<close> ended, returns an
  error \<open>retryErr\<close> (whatever it is: a failed read, a refused update, or the last
  conflict). Then either \<open>allocErr\<close> is not nil and is itself the error returned (the
  loop is not run), or \<open>allocErr\<close> is nil and the error returned is the text
  \<^verbatim>\<open>error updating Service Spec [name] : \<close> followed by \<^verbatim>\<open>%v\<close> of \<open>allocErr\<close>, that is
  by \<^verbatim>\<open><nil>\<close>. The text depends on the name of the service only: \<open>retryErr\<close> does not
  occur in it.
\<close>

theorem syncLoadBalancer_update_error_hides_cause:
  fixes env :: "('s, 'x) collaborators"
  assumes unbound: "Spec_LoadBalancerIP service = ''''"
    and listed: "svcList env (Namespace service) ''implementation=kube-vip'' (api w) = (Inr svcs, s1)"
    and config: "cmGet env (clientConfigName env) ''kube-system'' s1 = (Inr cm, s2)
                 \<or> (\<exists>e s. cmGet env (clientConfigName env) ''kube-system'' s1 = (Inl e, s)
                          \<and> cmCreate env (clientConfigName env) ''kube-system'' s = (Inr cm, s2))"
    and allocation: "fst (discoverAddress env cm (Namespace service) (cloudConfigMap k)
                            (appendServiceIPS [] svcs)
                            \<lparr>api = s2, trace = trace w @ resolvingCalls env service s1\<rparr>) = (vip, allocErr)"
    and persistence: "fst (RetryOnConflict DefaultRetry (updateService env service vip)
                        (snd (discoverAddress env cm (Namespace service) (cloudConfigMap k)
                                (appendServiceIPS [] svcs)
                                \<lparr>api = s2, trace = trace w @ resolvingCalls env service s1\<rparr>)))
                      = Some retryErr"
  shows "(allocErr \<noteq> None \<and> fst (syncLoadBalancer env k service w) = (None, allocErr))
         \<or> (allocErr = None
             \<and> fst (syncLoadBalancer env k service w)
                 = (None, Some (Errorf (''error updating Service Spec ['' @ Name service @ ''] : ''
                                          @ fmt_v allocErr)))
             \<and> fst (syncLoadBalancer env k service w)
                 = (None, Some (Errorf (''error updating Service Spec ['' @ Name service @ ''] : <nil>''))))"
  using syncLoadBalancer_unbound [OF unbound listed config, of k] allocation persistence
  by (cases allocErr) (simp_all add: split_def fmt_v_def)

lemma scripted_exhausted:
  "fst (RetryOnConflict DefaultRetry (updateService (scripted 5 [db, orphan, db] pools) web ''192.168.1.2'')
          (snd (discoverAddress (scripted 5 [db, orphan, db] pools) pools (Namespace web)
                  (cloudConfigMap manager) (appendServiceIPS [] [db, orphan, db])
                  \<lparr>api = 0, trace = trace start @ resolvingCalls (scripted 5 [db, orphan, db] pools) web 0\<rparr>)))
     = Some (StatusError StatusReasonConflict ''object has been modified'')"
  by (simp add: model_defs fixture_defs resolvingCalls_def eval_nat_numeral)

theorem syncLoadBalancer_update_error_hides_cause_witness:
  "Spec_LoadBalancerIP web = ''''
   \<and> svcList (scripted 5 [db, orphan, db] pools) (Namespace web) ''implementation=kube-vip'' (api start)
       = (Inr [db, orphan, db], 0)
   \<and> cmGet (scripted 5 [db, orphan, db] pools) (clientConfigName (scripted 5 [db, orphan, db] pools))
       ''kube-system'' 0 = (Inr pools, 0)
   \<and> fst (discoverAddress (scripted 5 [db, orphan, db] pools) pools (Namespace web) (cloudConfigMap manager)
            (appendServiceIPS [] [db, orphan, db])
            \<lparr>api = 0, trace = trace start @ resolvingCalls (scripted 5 [db, orphan, db] pools) web 0\<rparr>)
       = (''192.168.1.2'', None)
   \<and> fst (RetryOnConflict DefaultRetry (updateService (scripted 5 [db, orphan, db] pools) web ''192.168.1.2'')
          (snd (discoverAddress (scripted 5 [db, orphan, db] pools) pools (Namespace web)
                  (cloudConfigMap manager) (appendServiceIPS [] [db, orphan, db])
                  \<lparr>api = 0, trace = trace start @ resolvingCalls (scripted 5 [db, orphan, db] pools) web 0\<rparr>)))
       = Some (StatusError StatusReasonConflict ''object has been modified'')
   \<and> fst (syncLoadBalancer (scripted 5 [db, orphan, db] pools) manager web start)
       = (None, Some (Errorf ''error updating Service Spec [web] : <nil>''))"
proof -
  have result: "fst (syncLoadBalancer (scripted 5 [db, orphan, db] pools) manager web start)
       = (None, Some (Errorf ''error updating Service Spec [web] : <nil>''))"
    using syncLoadBalancer_update_error_hides_cause
            [OF web_unbound scripted_listed [of 5] disjI1 [OF scripted_config [of 5]]
                scripted_allocation [of 5] scripted_exhausted]
    by (simp add: web_def fmt_v_def)
  show ?thesis
    using web_unbound scripted_listed [of 5 "[db, orphan, db]" pools]
      scripted_config [of 5 "[db, orphan, db]" pools] scripted_allocation [of 5]
      scripted_exhausted result
    by (intro conjI) simp_all
qed

subsection \<open>GetLoadBalancer\<close>

lemma binds_unseen: "binds ip c \<Longrightarrow> unseen c"
  by (cases c) (simp_all add: GetLoadBalancer_def)

lemma after_emits:
  assumes "\<And>u. emits P u (snd (fn u))"
  shows "emits P w (after i fn w)"
proof (induction i)
  case 0
  show ?case by (simp add: after_0 emits_refl)
next
  case (Suc i)
  from Suc assms [of "after i fn w"] show ?case
    by (simp add: after_Suc) (rule emits_trans)
qed

lemma retryLoop_success:
  assumes "0 < n" and "fst (retryLoop n fn lastErr w) = None"
  shows "\<exists>i. fn (after i fn w) = (None, snd (retryLoop n fn lastErr w))"
proof -
  obtain i where world: "snd (retryLoop n fn lastErr w) = after (Suc i) fn w"
    and last: "case fst (fn (after i fn w)) of
                 None \<Rightarrow> fst (retryLoop n fn lastErr w) = None
               | Some e \<Rightarrow> (IsConflict e \<longrightarrow> Suc i = n) \<and> fst (retryLoop n fn lastErr w) = Some e"
    using retryLoop_attempts [OF assms(1), of fn w lastErr] by blast
  from last assms(2) have "fst (fn (after i fn w)) = None"
    by (cases "fst (fn (after i fn w))") simp_all
  with world have "fn (after i fn w) = (None, snd (retryLoop n fn lastErr w))"
    by (simp add: after_Suc prod_eq_iff)
  then show ?thesis ..
qed

lemma syncLoadBalancer_success:
  fixes env :: "('s, 'x) collaborators"
  assumes unbound: "Spec_LoadBalancerIP service = ''''"
    and bound: "snd (fst (syncLoadBalancer env k service w)) = None"
  shows "\<exists>svcs s1 cm s2 vip.
           svcList env (Namespace service) ''implementation=kube-vip'' (api w) = (Inr svcs, s1)
         \<and> (cmGet env (clientConfigName env) ''kube-system'' s1 = (Inr cm, s2)
                 \<or> (\<exists>e s. cmGet env (clientConfigName env) ''kube-system'' s1 = (Inl e, s)
                          \<and> cmCreate env (clientConfigName env) ''kube-system'' s = (Inr cm, s2)))
         \<and> fst (discoverAddress env cm (Namespace service) (cloudConfigMap k)
                           (appendServiceIPS [] svcs)
                           \<lparr>api = s2, trace = trace w @ resolvingCalls env service s1\<rparr>) = (vip, None)
         \<and> fst (RetryOnConflict DefaultRetry (updateService env service vip)
                  (snd (discoverAddress env cm (Namespace service) (cloudConfigMap k)
                           (appendServiceIPS [] svcs)
                           \<lparr>api = s2, trace = trace w @ resolvingCalls env service s1\<rparr>))) = None"
proof -
  have resolved: ?thesis
    if listed: "svcList env (Namespace service) ''implementation=kube-vip'' (api w) = (Inr svcs, s1)"
      and config: "cmGet env (clientConfigName env) ''kube-system'' s1 = (Inr cm, s2)
                 \<or> (\<exists>e s. cmGet env (clientConfigName env) ''kube-system'' s1 = (Inl e, s)
                          \<and> cmCreate env (clientConfigName env) ''kube-system'' s = (Inr cm, s2))"
    for svcs s1 cm s2
  proof -
    define run where "run = discoverAddress env cm (Namespace service) (cloudConfigMap k)
                           (appendServiceIPS [] svcs)
                           \<lparr>api = s2, trace = trace w @ resolvingCalls env service s1\<rparr>"
    have sync: "syncLoadBalancer env k service w =
     (if snd (fst run) \<noteq> None then ((None, snd (fst run)), snd run)
      else
        (case RetryOnConflict DefaultRetry (updateService env service (fst (fst run))) (snd run) of
           (retryErr, w6) \<Rightarrow>
             if retryErr \<noteq> None
             then ((None, Some (Errorf (''error updating Service Spec [''
                     @ Name service @ ''] : '' @ fmt_v (snd (fst run))))), w6)
             else ((Some (Status_LoadBalancer service), None), w6)))"
      using syncLoadBalancer_unbound [OF unbound listed config, of k]
      by (simp add: run_def split_def)
    have ok: "snd (fst run) = None"
      using bound by (cases "snd (fst run)") (simp_all add: sync)
    then have alloc: "fst run = (fst (fst run), None)"
      by (simp add: prod_eq_iff)
    have retry: "fst (RetryOnConflict DefaultRetry (updateService env service (fst (fst run))) (snd run)) = None"
      using bound ok
      by (cases "fst (RetryOnConflict DefaultRetry (updateService env service (fst (fst run))) (snd run))")
         (simp_all add: sync split_def)
    show ?thesis
      using listed config alloc retry unfolding run_def by blast
  qed
  obtain r1 s1 where l: "svcList env (Namespace service) ''implementation=kube-vip'' (api w) = (r1, s1)"
    by (cases "svcList env (Namespace service) ''implementation=kube-vip'' (api w)")
  obtain r2 s2 where g: "cmGet env (clientConfigName env) ''kube-system'' s1 = (r2, s2)"
    by (cases "cmGet env (clientConfigName env) ''kube-system'' s1")
  obtain r3 s3 where c: "cmCreate env (clientConfigName env) ''kube-system'' s2 = (r3, s3)"
    by (cases "cmCreate env (clientConfigName env) ''kube-system'' s2")
  show ?thesis
  proof (cases r1)
    case (Inl e)
    with unbound l bound show ?thesis
      by (simp add: syncLoadBalancer_def run_defs)
  next
    case (Inr svcs)
    with l have listed: "svcList env (Namespace service) ''implementation=kube-vip'' (api w) = (Inr svcs, s1)"
      by simp
    show ?thesis
    proof (cases r2)
      case (Inr cm)
      with g show ?thesis by (intro resolved [OF listed]) simp
    next
      case getfail: (Inl e)
      show ?thesis
      proof (cases r3)
        case (Inl e')
        with g getfail c have "cmGet env (clientConfigName env) ''kube-system'' s1 = (Inl e, s2)"
          and "cmCreate env (clientConfigName env) ''kube-system'' s2 = (Inl e', s3)" by simp_all
        with unbound listed bound show ?thesis
          by (simp add: syncLoadBalancer_def run_defs)
      next
        case (Inr cm)
        with g getfail c show ?thesis by (intro resolved [OF listed]) simp
      qed
    qed
  qed
qed


lemma updateService_success:
  fixes env :: "('s, 'x) collaborators"
  assumes "updateService env service ip u = (None, w')"
  shows "\<exists>recent s stored.
           svcGet env (Namespace service) (Name service) (api u) = (Inr recent, s)
         \<and> svcUpdate env (Namespace recent)
               (recent\<lparr>Labels := Some ((case Labels recent of None \<Rightarrow> Map.empty | Some m \<Rightarrow> m)
                                         (''implementation'' \<mapsto> ''kube-vip'', ''ipam-address'' \<mapsto> ip)),
                        Spec_LoadBalancerIP := ip\<rparr>) s = (Inr stored, api w')
         \<and> trace w' = trace u @ [ServicesGet (Namespace service) (Name service),
                                  Klog InfoLevel (''Updating service ['' @ Name service
                                    @ ''], with load balancer IPAM address ['' @ ip @ '']''),
                                  ServicesUpdate (Namespace recent)
                                    (recent\<lparr>Labels := Some ((case Labels recent of None \<Rightarrow> Map.empty | Some m \<Rightarrow> m)
                                         (''implementation'' \<mapsto> ''kube-vip'', ''ipam-address'' \<mapsto> ip)),
                                       Spec_LoadBalancerIP := ip\<rparr>)]"
proof -
  obtain r s where read: "svcGet env (Namespace service) (Name service) (api u) = (r, s)"
    by (cases "svcGet env (Namespace service) (Name service) (api u)")
  show ?thesis
  proof (cases r)
    case (Inl getErr)
    then show ?thesis
      using updateService_run [where env = env and service = service and u = u and ip = ip] read assms
      by simp
  next
    case (Inr recent)
    define obj where "obj = recent\<lparr>Labels := Some ((case Labels recent of None \<Rightarrow> Map.empty | Some m \<Rightarrow> m)
                                         (''implementation'' \<mapsto> ''kube-vip'', ''ipam-address'' \<mapsto> ip)),
                        Spec_LoadBalancerIP := ip\<rparr>"
    obtain r' s' where upd: "svcUpdate env (Namespace recent) obj s = (r', s')"
      by (cases "svcUpdate env (Namespace recent) obj s")
    have run: "updateService env service ip u
         = ((case r' of Inl updateErr \<Rightarrow> Some updateErr | Inr _ \<Rightarrow> None),
            \<lparr>api = s',
               trace = trace u @ [ServicesGet (Namespace service) (Name service),
                                  Klog InfoLevel (''Updating service ['' @ Name service
                                    @ ''], with load balancer IPAM address ['' @ ip @ '']''),
                                  ServicesUpdate (Namespace recent) obj]\<rparr>)"
      using updateService_run [where env = env and service = service and u = u and ip = ip]
        read Inr upd
      by (simp add: obj_def)
    from run assms obtain stored where stored: "r' = Inr stored"
      by (cases r') simp_all
    from run assms have world: "api w' = s'"
      "trace w' = trace u @ [ServicesGet (Namespace service) (Name service),
                                  Klog InfoLevel (''Updating service ['' @ Name service
                                    @ ''], with load balancer IPAM address ['' @ ip @ '']''),
                                  ServicesUpdate (Namespace recent) obj]"
      by auto
    show ?thesis
      using read Inr upd stored world unfolding obj_def
      by (intro exI [of _ recent] exI [of _ s] exI [of _ stored]) simp
  qed
qed

text \<open>
  C8. \<open>GetLoadBalancer\<close> reports a load balancer as existing exactly when the label
  \<^verbatim>\<open>implementation\<close> of the service is the string \<^verbatim>\<open>kube=vip\<close>. Take any run of
  \<open>syncLoadBalancer\<close> on an unbound service that returns a nil error, that is, any run
  in which the coordinator binds the service. The last call of that run is an update
  that the collaborator accepted; the object it carries is a service \<open>recent\<close>, read
  from the collaborator by the namespace and name of the target, with the label
  \<^verbatim>\<open>implementation\<close> set to \<^verbatim>\<open>kube-vip\<close> and the label \<^verbatim>\<open>ipam-address\<close> and the field
  \<^verbatim>\<open>Spec.LoadBalancerIP\<close> set to the allocated address. For that object
  \<open>GetLoadBalancer\<close> answers no status and \<open>exists = False\<close>. Moreover every update of
  the run carries \<^verbatim>\<open>kube-vip\<close> and is missed in the same way, and the listing selects
  \<^verbatim>\<open>implementation=kube-vip\<close>.
\<close>

theorem GetLoadBalancer_misses_bound_services:
  fixes env :: "('s, 'x) collaborators"
  assumes unbound: "Spec_LoadBalancerIP target = ''''"
    and bound: "snd (fst (syncLoadBalancer env k target w)) = None"
  shows "(\<exists>recent ip s0 s stored obj.
            obj = recent\<lparr>Labels := Some ((case Labels recent of None \<Rightarrow> Map.empty | Some m \<Rightarrow> m)
                                          (''implementation'' \<mapsto> ''kube-vip'', ''ipam-address'' \<mapsto> ip)),
                         Spec_LoadBalancerIP := ip\<rparr>
          \<and> svcGet env (Namespace target) (Name target) s0 = (Inr recent, s)
          \<and> svcUpdate env (Namespace recent) obj s
               = (Inr stored, api (snd (syncLoadBalancer env k target w)))
          \<and> events w (snd (syncLoadBalancer env k target w)) \<noteq> []
          \<and> last (events w (snd (syncLoadBalancer env k target w))) = ServicesUpdate (Namespace recent) obj
          \<and> index (Labels obj) ''implementation'' = ''kube-vip''
          \<and> index (Labels obj) ''ipam-address'' = ip
          \<and> Spec_LoadBalancerIP obj = ip
          \<and> GetLoadBalancer obj = (None, False, None))
         \<and> fst (syncLoadBalancer env k target w) = (Some (Status_LoadBalancer target), None)
         \<and> list_all unseen (events w (snd (syncLoadBalancer env k target w)))
         \<and> GetLoadBalancer service =
              (if index (Labels service) ''implementation'' = ''kube=vip''
               then (Some (Status_LoadBalancer service), True, None) else (None, False, None))
         \<and> (fst (snd (GetLoadBalancer service)) \<longleftrightarrow> index (Labels service) ''implementation'' = ''kube=vip'')"
proof -
  let ?w' = "snd (syncLoadBalancer env k target w)"
  obtain svcs s1 cm s2 vip where
    listed: "svcList env (Namespace target) ''implementation=kube-vip'' (api w) = (Inr svcs, s1)"
    and config: "cmGet env (clientConfigName env) ''kube-system'' s1 = (Inr cm, s2)
                 \<or> (\<exists>e s. cmGet env (clientConfigName env) ''kube-system'' s1 = (Inl e, s)
                          \<and> cmCreate env (clientConfigName env) ''kube-system'' s = (Inr cm, s2))"
    and allocated: "fst (discoverAddress env cm (Namespace target) (cloudConfigMap k)
                           (appendServiceIPS [] svcs)
                           \<lparr>api = s2, trace = trace w @ resolvingCalls env target s1\<rparr>) = (vip, None)"
    and retry: "fst (RetryOnConflict DefaultRetry (updateService env target vip)
                  (snd (discoverAddress env cm (Namespace target) (cloudConfigMap k)
                           (appendServiceIPS [] svcs)
                           \<lparr>api = s2, trace = trace w @ resolvingCalls env target s1\<rparr>))) = None"
    using syncLoadBalancer_success [OF unbound bound] by blast
  define w4 :: "('s, 'x) world" where "w4 = \<lparr>api = s2, trace = trace w @ resolvingCalls env target s1\<rparr>"
  define w5 where "w5 = snd (discoverAddress env cm (Namespace target) (cloudConfigMap k)
                           (appendServiceIPS [] svcs) w4)"
  define attempt where "attempt = updateService env target vip"
  have sync: "syncLoadBalancer env k target w
                = ((Some (Status_LoadBalancer target), None), snd (retryLoop 5 attempt None w5))"
    using syncLoadBalancer_allocated [OF unbound listed config allocated] retry
    by (simp add: w5_def w4_def attempt_def RetryOnConflict_def DefaultRetry_def split_def)
  have "fst (retryLoop 5 attempt None w5) = None"
    using retry by (simp add: w5_def w4_def attempt_def RetryOnConflict_def DefaultRetry_def)
  then obtain i where final: "attempt (after i attempt w5) = (None, ?w')"
    using retryLoop_success [of 5 attempt None w5] by (auto simp: sync)
  define u where "u = after i attempt w5"
  obtain recent s stored where
    read: "svcGet env (Namespace target) (Name target) (api u) = (Inr recent, s)"
    and sent: "svcUpdate env (Namespace recent)
               (recent\<lparr>Labels := Some ((case Labels recent of None \<Rightarrow> Map.empty | Some m \<Rightarrow> m)
                                         (''implementation'' \<mapsto> ''kube-vip'', ''ipam-address'' \<mapsto> vip)),
                        Spec_LoadBalancerIP := vip\<rparr>) s = (Inr stored, api ?w')"
    and tr: "trace ?w' = trace u @ [ServicesGet (Namespace target) (Name target),
                                  Klog InfoLevel (''Updating service ['' @ Name target
                                    @ ''], with load balancer IPAM address ['' @ vip @ '']''),
                                  ServicesUpdate (Namespace recent)
                                    (recent\<lparr>Labels := Some ((case Labels recent of None \<Rightarrow> Map.empty | Some m \<Rightarrow> m)
                                         (''implementation'' \<mapsto> ''kube-vip'', ''ipam-address'' \<mapsto> vip)),
                                       Spec_LoadBalancerIP := vip\<rparr>)]"
    using updateService_success [of env target vip u ?w'] final
    unfolding u_def attempt_def by blast
  have "emits (\<lambda>c. True) w w4"
    by (simp add: emits_iff w4_def list_all_iff)
  moreover have "emits (\<lambda>c. True) w4 w5"
    unfolding w5_def by (rule emits_mono [OF discoverAddress_emits]) simp
  moreover have "emits (\<lambda>c. True) w5 u"
    unfolding u_def attempt_def
    by (rule after_emits) (rule emits_mono [OF updateService_emits], simp)
  ultimately have "emits (\<lambda>c. True) w u"
    by (blast intro: emits_trans)
  then obtain xs where xs: "trace u = trace w @ xs"
    by (auto simp: emits_iff)
  have ev: "events w ?w' = xs @ [ServicesGet (Namespace target) (Name target),
                                  Klog InfoLevel (''Updating service ['' @ Name target
                                    @ ''], with load balancer IPAM address ['' @ vip @ '']''),
                                  ServicesUpdate (Namespace recent)
                                    (recent\<lparr>Labels := Some ((case Labels recent of None \<Rightarrow> Map.empty | Some m \<Rightarrow> m)
                                         (''implementation'' \<mapsto> ''kube-vip'', ''ipam-address'' \<mapsto> vip)),
                                       Spec_LoadBalancerIP := vip\<rparr>)]"
    by (rule events_append) (simp add: tr xs)
  define obj where "obj = recent\<lparr>Labels := Some ((case Labels recent of None \<Rightarrow> Map.empty | Some m \<Rightarrow> m)
                                          (''implementation'' \<mapsto> ''kube-vip'', ''ipam-address'' \<mapsto> vip)),
                         Spec_LoadBalancerIP := vip\<rparr>"
  have body: "obj = recent\<lparr>Labels := Some ((case Labels recent of None \<Rightarrow> Map.empty | Some m \<Rightarrow> m)
                                          (''implementation'' \<mapsto> ''kube-vip'', ''ipam-address'' \<mapsto> vip)),
                         Spec_LoadBalancerIP := vip\<rparr>
          \<and> svcGet env (Namespace target) (Name target) (api u) = (Inr recent, s)
          \<and> svcUpdate env (Namespace recent) obj s = (Inr stored, api ?w')
          \<and> events w ?w' \<noteq> []
          \<and> last (events w ?w') = ServicesUpdate (Namespace recent) obj
          \<and> index (Labels obj) ''implementation'' = ''kube-vip''
          \<and> index (Labels obj) ''ipam-address'' = vip
          \<and> Spec_LoadBalancerIP obj = vip
          \<and> GetLoadBalancer obj = (None, False, None)"
    using read sent by (simp add: obj_def ev index_def GetLoadBalancer_def)
  have written: "\<exists>recent ip s0 s stored obj.
            obj = recent\<lparr>Labels := Some ((case Labels recent of None \<Rightarrow> Map.empty | Some m \<Rightarrow> m)
                                          (''implementation'' \<mapsto> ''kube-vip'', ''ipam-address'' \<mapsto> ip)),
                         Spec_LoadBalancerIP := ip\<rparr>
          \<and> svcGet env (Namespace target) (Name target) s0 = (Inr recent, s)
          \<and> svcUpdate env (Namespace recent) obj s = (Inr stored, api ?w')
          \<and> events w ?w' \<noteq> []
          \<and> last (events w ?w') = ServicesUpdate (Namespace recent) obj
          \<and> index (Labels obj) ''implementation'' = ''kube-vip''
          \<and> index (Labels obj) ''ipam-address'' = ip
          \<and> Spec_LoadBalancerIP obj = ip
          \<and> GetLoadBalancer obj = (None, False, None)"
    by (intro exI) (rule body)
  have result: "fst (syncLoadBalancer env k target w) = (Some (Status_LoadBalancer target), None)"
    by (simp add: sync)
  have "emits unseen w ?w'"
  proof (rule syncLoadBalancer_emits)
    show "unseen c" if "allocates (Namespace target) ex c" for c :: "'x Service_scheme call" and ex
      using that by (cases c) simp_all
  qed (simp_all add: binds_unseen)
  then have calls: "list_all unseen (events w ?w')"
    by (simp add: emits_def)
  have get: "GetLoadBalancer service =
              (if index (Labels service) ''implementation'' = ''kube=vip''
               then (Some (Status_LoadBalancer service), True, None) else (None, False, None))"
    by (simp add: GetLoadBalancer_def)
  have iff: "fst (snd (GetLoadBalancer service)) \<longleftrightarrow> index (Labels service) ''implementation'' = ''kube=vip''"
    by (simp add: GetLoadBalancer_def)
  show ?thesis
    by (intro conjI written result calls get iff)
qed


theorem GetLoadBalancer_misses_bound_services_witness:
  "Spec_LoadBalancerIP web = ''''
   \<and> snd (fst (syncLoadBalancer (scripted 2 [db, orphan, db] pools) manager web start)) = None
   \<and> fst (syncLoadBalancer (scripted 2 [db, orphan, db] pools) manager web start)
       = (Some \<lparr>Ingress = []\<rparr>, None)
   \<and> last (events start (snd (syncLoadBalancer (scripted 2 [db, orphan, db] pools) manager web start)))
       = ServicesUpdate ''default''
           \<lparr>Name = ''web'', Namespace = ''default'', UID = ''u-1'',
            Labels = Some [''implementation'' \<mapsto> ''kube-vip'', ''ipam-address'' \<mapsto> ''192.168.1.2''],
            Spec_LoadBalancerIP = ''192.168.1.2'', Status_LoadBalancer = \<lparr>Ingress = []\<rparr>\<rparr>
   \<and> GetLoadBalancer
         \<lparr>Name = ''web'', Namespace = ''default'', UID = ''u-1'',
          Labels = Some [''implementation'' \<mapsto> ''kube-vip'', ''ipam-address'' \<mapsto> ''192.168.1.2''],
          Spec_LoadBalancerIP = ''192.168.1.2'', Status_LoadBalancer = \<lparr>Ingress = []\<rparr>\<rparr>
       = (None, False, None)"
proof -
  let ?run = "syncLoadBalancer (scripted 2 [db, orphan, db] pools) manager web start"
  let ?written = "\<lparr>Name = ''web'', Namespace = ''default'', UID = ''u-1'',
            Labels = Some [''implementation'' \<mapsto> ''kube-vip'', ''ipam-address'' \<mapsto> ''192.168.1.2''],
            Spec_LoadBalancerIP = ''192.168.1.2'', Status_LoadBalancer = \<lparr>Ingress = []\<rparr>\<rparr>"
  have bound: "snd (fst ?run) = None"
    and sent: "last (events start (snd ?run)) = ServicesUpdate ''default'' ?written"
    using run_written by simp_all
  note claim = GetLoadBalancer_misses_bound_services [OF web_unbound bound]
  from claim obtain recent :: Service and obj where
    "last (events start (snd ?run)) = ServicesUpdate (Namespace recent) obj"
    and missed: "GetLoadBalancer obj = (None, False, None)"
    by blast
  with sent have "obj = ?written" by simp
  with missed have "GetLoadBalancer ?written = (None, False, None)" by simp
  moreover have "fst ?run = (Some \<lparr>Ingress = []\<rparr>, None)"
    using claim [THEN conjunct2, THEN conjunct1] by (simp add: web_def)
  ultimately show ?thesis
    using web_unbound bound sent by (intro conjI)
qed

end
